theory Spec2Isabelle
  imports Complex_Main "HOL-Library.AList" "HOL-Library.Multiset"
begin

section \<open>The replication and host-election engine of RTCNotebook\<close>

text \<open>
  The class \<^verbatim>\<open>RTCNotebook\<close> keeps a notebook (an ordered list of cells) in step with
  a shared Y.Doc: a Y.Map from cell id to a record of the cell (\<^verbatim>\<open>cells\<close>), a Y.Text
  naming the hosting client (\<^verbatim>\<open>notebookHost\<close>), and one Y.Text per cell bound to the
  cell's editor. The repository holds two copies of the class, the file
  \<^verbatim>\<open>src/RTCNotebook.tsx\<close> (\<open>Named\<close>) and a second copy with renamed private fields
  (\<open>Second\<close>). In what is modelled here they differ in \<^verbatim>\<open>handleExecution\<close> and
  \<^verbatim>\<open>disconnectListeners\<close> only; the functions that differ take the copy as a
  parameter.
\<close>

datatype impl = Named | Second

subsection \<open>Data\<close>

text \<open>
  A thrown exception does not undo the mutations made before it, so an operation
  returns the state it reached together with the fact that it threw.
  \<^verbatim>\<open>TypeError\<close> is the property access on \<^verbatim>\<open>undefined\<close>. \<^verbatim>\<open>OutOfContract\<close> marks a
  call of a list operation of the notebook model with an index that its declared
  type or range excludes; the model stops there.
\<close>

datatype error = TypeError | OutOfContract

datatype 's outcome = Done (final: 's) | Threw (fault: error) (final: 's)

fun thenDo :: "'s outcome \<Rightarrow> ('s \<Rightarrow> 's outcome) \<Rightarrow> 's outcome" where
  "thenDo (Done s) f = f s"
| "thenDo (Threw e s) f = Threw e s"

fun completed :: "'s outcome \<Rightarrow> bool" where
  "completed (Done s) = True"
| "completed (Threw e s) = False"

type_synonym ioutput = string

text \<open>
  The record of one cell in the Y.Map \<^verbatim>\<open>cells\<close> (itself a Y.Map). Every writer sets
  \<^verbatim>\<open>type\<close>, \<^verbatim>\<open>xCount\<close>, \<^verbatim>\<open>output\<close> and \<^verbatim>\<open>position\<close> before it stores the record
  (\<^verbatim>\<open>createNew\<close>, the local add); \<^verbatim>\<open>xCount\<close> and \<^verbatim>\<open>tag\<close> are read with a test for
  \<^verbatim>\<open>undefined\<close> and are optional here.
\<close>

record block =
  btype :: string
  position :: int
  xCount :: "int option"
  boutput :: "ioutput list"
  tag :: "string option"

text \<open>A cell of the notebook: the widget together with its model.\<close>

record cell =
  ctype :: string
  rtc_id :: "string option"
  cxCount :: "int option"
  prompt :: "string option"
  outputs :: "ioutput list"

datatype backend_call = Execute "cell option" | ChangeKernel

datatype handler = HMove | HType | HExecution | HOutput | HTag

text \<open>
  The fields of the class, the parts of the notebook panel and of the websocket
  provider that the class reads and writes, and three logs: the calls of the
  execution backend (\<^verbatim>\<open>CodeCell.execute\<close>, \<^verbatim>\<open>sessionContext.changeKernel\<close>), the
  bindings on which \<^verbatim>\<open>destroy()\<close> was called, and the handlers that the remote
  listener invoked. A binding is the handle \<^verbatim>\<open>new CodeMirrorBinding\<close> returned;
  \<^verbatim>\<open>uuid()\<close> draws from \<open>uuidSource\<close>. The JavaScript \<^verbatim>\<open>Map\<close> of the bindings
  keeps its entries in the order of insertion and accepts the key \<^verbatim>\<open>undefined\<close>: it
  is an association list keyed by an optional string. The awareness states are
  the pairs of a client id and the \<^verbatim>\<open>user.name\<close> of its state, which every client
  publishes in the constructor, in the order of the \<^verbatim>\<open>Map\<close> of states. The notebook's
  widgets and the cells of its model are one list, \<open>nbcells\<close>. Numbers are integers.
\<close>

record rtc =
  cells :: "string \<rightharpoonup> block"
  nbcells :: "cell list"
  bindings :: "(string option \<times> nat) list"
  hosting :: bool
  username :: string
  notebookHost :: string
  owner :: "string option"
  defaultCell :: string
  awareness :: "(nat \<times> string) list"
  clientID :: nat
  localListenerOn :: bool
  remoteListenerOn :: bool
  hostListenerOn :: bool
  executionSlotDefined :: bool
  executionListenerOn :: bool
  closeHandlerOn :: bool
  saveHandlerOn :: bool
  wsDestroyed :: bool
  backend :: "backend_call list"
  destroyed :: "nat list"
  handled :: "handler list"
  nextBinding :: nat
  uuidSource :: "nat \<Rightarrow> string"
  uuidCount :: nat

subsection \<open>JavaScript helpers\<close>

text \<open>Truthiness of a value that is a string or \<^verbatim>\<open>undefined\<close>.\<close>

fun truthy :: "string option \<Rightarrow> bool" where
  "truthy None = False"
| "truthy (Some v) = (v \<noteq> [])"

text \<open>\<^verbatim>\<open>Y.Map.get\<close> with a key that may be \<^verbatim>\<open>undefined\<close>.\<close>

fun ymap_get :: "(string \<rightharpoonup> 'v) \<Rightarrow> string option \<Rightarrow> 'v option" where
  "ymap_get m None = None"
| "ymap_get m (Some k) = m k"

fun ymap_delete :: "(string \<rightharpoonup> 'v) \<Rightarrow> string option \<Rightarrow> (string \<rightharpoonup> 'v)" where
  "ymap_delete m None = m"
| "ymap_delete m (Some k) = m(k := None)"

text \<open>\<^verbatim>\<open>notebook.widgets[i]\<close> and \<^verbatim>\<open>notebook.model.cells.get(i)\<close>: \<^verbatim>\<open>undefined\<close> out of range.\<close>

definition array_at :: "'a list \<Rightarrow> int \<Rightarrow> 'a option" where
  "array_at cs i = (if 0 \<le> i \<and> i < int (length cs) then Some (cs ! nat i) else None)"

definition uuid :: "rtc \<Rightarrow> string" where
  "uuid s = uuidSource s (uuidCount s)"

subsection \<open>bindCell, getCellIndex, adjustIndexes\<close>

text \<open>
  \<^verbatim>\<open>bindCell\<close> creates the binding of the cell's editor to the Y.Text of its id,
  destroys the binding the id had, and stores the new one. The two signal
  connections it makes on a code cell's model (they write \<^verbatim>\<open>tag\<close> and \<^verbatim>\<open>output\<close> on the
  host after a run of the kernel) are not part of the state here.
\<close>

definition bindCell :: "cell option \<Rightarrow> rtc \<Rightarrow> rtc outcome" where
  "bindCell c s =
     (case c of
        None \<Rightarrow> Threw TypeError s
      | Some cell' \<Rightarrow>
          let cellID = rtc_id cell';
              binding = nextBinding s;
              s1 = s\<lparr>nextBinding := Suc binding\<rparr>;
              s2 = (case map_of (bindings s1) cellID of
                      Some old \<Rightarrow> s1\<lparr>destroyed := destroyed s1 @ [old]\<rparr>
                    | None \<Rightarrow> s1)
          in Done (s2\<lparr>bindings := AList.update cellID binding (bindings s2)\<rparr>))"

definition getCellIndex :: "rtc \<Rightarrow> string option \<Rightarrow> error + int" where
  "getCellIndex s cellID =
     (case ymap_get (cells s) cellID of
        None \<Rightarrow> Inl TypeError
      | Some metadata \<Rightarrow> Inr (position metadata))"

text \<open>
  The loop of \<^verbatim>\<open>adjustIndexes\<close>: it reads the notebook's cells and writes the position of
  each cell's record, and throws at the first index that has no cell or whose
  cell has no record.
\<close>

function adjustIndexes_loop ::
  "cell list \<Rightarrow> int \<Rightarrow> int \<Rightarrow> (string \<rightharpoonup> block) \<Rightarrow> (string \<rightharpoonup> block) outcome" where
  "adjustIndexes_loop cs index stop m =
     (if index \<le> stop then
        (case array_at cs index of
           None \<Rightarrow> Threw TypeError m
         | Some c \<Rightarrow>
             (case rtc_id c of
                None \<Rightarrow> Threw TypeError m
              | Some i \<Rightarrow>
                  (case m i of
                     None \<Rightarrow> Threw TypeError m
                   | Some metadata \<Rightarrow>
                       adjustIndexes_loop cs (index + 1) stop
                         (m(i \<mapsto> metadata\<lparr>position := index\<rparr>)))))
      else Done m)"
  by pat_completeness auto
termination
  by (relation "measure (\<lambda>(cs, index, stop, m). nat (stop + 1 - index))") auto

declare adjustIndexes_loop.simps [simp del]

definition adjustIndexes :: "int \<Rightarrow> int \<Rightarrow> rtc \<Rightarrow> rtc outcome" where
  "adjustIndexes oldPos newPos s =
     (let start = (if oldPos \<le> newPos then oldPos else newPos);
          stop = (if oldPos \<le> newPos then newPos else oldPos)
      in map_outcome (\<lambda>m. s\<lparr>cells := m\<rparr>) (adjustIndexes_loop (nbcells s) start stop (cells s)))"

subsection \<open>The local listener\<close>

datatype change_type = CAdd | CRemove | CSet | CMove

record changed_args =
  chtype :: change_type
  newIndex :: int
  newValues :: "cell list"
  oldIndex :: int
  oldValues :: "cell list"

definition localListener_add :: "changed_args \<Rightarrow> rtc \<Rightarrow> rtc outcome" where
  "localListener_add changed s =
     (case array_at (nbcells s) (newIndex changed) of
        None \<Rightarrow> Threw TypeError s
      | Some cellModel \<Rightarrow>
          if truthy (rtc_id cellModel) then Done s
          else
            let cellID = uuid s;
                s1 = s\<lparr>uuidCount := Suc (uuidCount s)\<rparr>;
                s2 = s1\<lparr>nbcells := (nbcells s1)[nat (newIndex changed) :=
                        cellModel\<lparr>rtc_id := Some cellID, cxCount := Some 0\<rparr>]\<rparr>;
                metadata = \<lparr>btype = ''code'', position = newIndex changed, xCount = Some 0,
                            boutput = [], tag = None\<rparr>
            in thenDo (bindCell (array_at (nbcells s2) (newIndex changed)) s2) (\<lambda>s3.
                 let s4 = s3\<lparr>cells := (cells s3)(cellID \<mapsto> metadata)\<rparr> in
                 if newIndex changed < int (length (nbcells s4)) - 1
                 then adjustIndexes (newIndex changed + 1) (int (length (nbcells s4)) - 1) s4
                 else Done s4))"

definition localListener_remove :: "changed_args \<Rightarrow> rtc \<Rightarrow> rtc outcome" where
  "localListener_remove changed s =
     (case oldValues changed of
        [] \<Rightarrow> Threw TypeError s
      | old # _ \<Rightarrow>
          let deleteCellID = rtc_id old in
          (case map_of (bindings s) deleteCellID of
             None \<Rightarrow> Done s
           | Some b \<Rightarrow>
               let s1 = s\<lparr>destroyed := destroyed s @ [b]\<rparr>;
                   s2 = s1\<lparr>bindings := AList.delete deleteCellID (bindings s1)\<rparr>;
                   s3 = s2\<lparr>cells := ymap_delete (cells s2) deleteCellID\<rparr>
               in if oldIndex changed < int (length (nbcells s3))
                  then adjustIndexes (oldIndex changed) (int (length (nbcells s3)) - 1) s3
                  else Done s3))"

definition localListener_set :: "changed_args \<Rightarrow> rtc \<Rightarrow> rtc outcome" where
  "localListener_set changed s =
     (case oldValues changed of
        [] \<Rightarrow> Threw TypeError s
      | old # _ \<Rightarrow>
          let rid = rtc_id old in
          (case newValues changed of
             [] \<Rightarrow> Threw TypeError s
           | new # _ \<Rightarrow>
               if ctype new \<noteq> ctype old then
                 (case getCellIndex s rid of
                    Inl e \<Rightarrow> Threw e s
                  | Inr i \<Rightarrow>
                      thenDo (bindCell (array_at (nbcells s) i) s) (\<lambda>s1.
                        (case (rid, ymap_get (cells s1) rid, array_at (nbcells s1) i) of
                           (Some k, Some metadata, Some c) \<Rightarrow>
                             if btype metadata \<noteq> ctype c
                             then Done (s1\<lparr>cells := (cells s1)(k \<mapsto> metadata\<lparr>btype := ctype c\<rparr>)\<rparr>)
                             else Done s1
                         | _ \<Rightarrow> Threw TypeError s1)))
               else Done s))"

definition localListener_move :: "changed_args \<Rightarrow> rtc \<Rightarrow> rtc outcome" where
  "localListener_move changed s =
     (case oldValues changed of
        [] \<Rightarrow> Threw TypeError s
      | old # _ \<Rightarrow>
          if oldIndex changed = newIndex changed then Done s
          else
            (case rtc_id old of
               None \<Rightarrow> Threw TypeError s
             | Some i \<Rightarrow>
                 (case cells s i of
                    None \<Rightarrow> Threw TypeError s
                  | Some m \<Rightarrow>
                      if position m = newIndex changed then Done s
                      else adjustIndexes (oldIndex changed) (newIndex changed)
                             (s\<lparr>cells := (cells s)(i \<mapsto> m\<lparr>position := newIndex changed\<rparr>)\<rparr>))))"

definition localListenerSlot :: "changed_args \<Rightarrow> rtc \<Rightarrow> rtc outcome" where
  "localListenerSlot changed s =
     (case chtype changed of
        CAdd \<Rightarrow> localListener_add changed s
      | CRemove \<Rightarrow> localListener_remove changed s
      | CSet \<Rightarrow> localListener_set changed s
      | CMove \<Rightarrow> localListener_move changed s)"

subsection \<open>The cell list of the notebook model\<close>

text \<open>
  The list operations of \<^verbatim>\<open>notebook.model.cells\<close> (an observable list of JupyterLab)
  change the list and emit the signal \<^verbatim>\<open>changed\<close>, which runs the local listener, when
  it is connected, before the operation returns. A signal catches and logs what a
  slot throws, so the caller goes on from the state the slot reached. The
  operations are modelled for indices inside the list; any other index, and a
  source index of \<^verbatim>\<open>move\<close> that is not a number, ends in \<open>OutOfContract\<close>.
\<close>

datatype jsval = JUndefined | JNum int | JStr string | JOther

definition emit_changed :: "changed_args \<Rightarrow> rtc \<Rightarrow> rtc" where
  "emit_changed changed s =
     (if localListenerOn s then final (localListenerSlot changed s) else s)"

definition cells_insert :: "int \<Rightarrow> cell \<Rightarrow> rtc \<Rightarrow> rtc outcome" where
  "cells_insert index c s =
     (if 0 \<le> index \<and> index \<le> int (length (nbcells s)) then
        Done (emit_changed
                \<lparr>chtype = CAdd, newIndex = index, newValues = [c], oldIndex = - 1, oldValues = []\<rparr>
                (s\<lparr>nbcells := take (nat index) (nbcells s) @ c # drop (nat index) (nbcells s)\<rparr>))
      else Threw OutOfContract s)"

definition cells_remove :: "int \<Rightarrow> rtc \<Rightarrow> rtc outcome" where
  "cells_remove index s =
     (case array_at (nbcells s) index of
        None \<Rightarrow> Threw OutOfContract s
      | Some c \<Rightarrow>
          Done (emit_changed
                  \<lparr>chtype = CRemove, newIndex = - 1, newValues = [], oldIndex = index, oldValues = [c]\<rparr>
                  (s\<lparr>nbcells := take (nat index) (nbcells s) @ drop (Suc (nat index)) (nbcells s)\<rparr>)))"

definition cells_set :: "int \<Rightarrow> cell \<Rightarrow> rtc \<Rightarrow> rtc outcome" where
  "cells_set index c s =
     (case array_at (nbcells s) index of
        None \<Rightarrow> Threw OutOfContract s
      | Some old \<Rightarrow>
          Done (emit_changed
                  \<lparr>chtype = CSet, newIndex = index, newValues = [c], oldIndex = index, oldValues = [old]\<rparr>
                  (s\<lparr>nbcells := (nbcells s)[nat index := c]\<rparr>)))"

definition list_move :: "nat \<Rightarrow> nat \<Rightarrow> 'a list \<Rightarrow> 'a list" where
  "list_move i j xs =
     (let rest = take i xs @ drop (Suc i) xs in take j rest @ (xs ! i) # drop j rest)"

definition cells_move :: "jsval \<Rightarrow> int \<Rightarrow> rtc \<Rightarrow> rtc outcome" where
  "cells_move fromIndex toIndex s =
     (case fromIndex of
        JNum f \<Rightarrow>
          (case (array_at (nbcells s) f, array_at (nbcells s) toIndex) of
             (Some c, Some _) \<Rightarrow>
               if length (nbcells s) \<le> 1 \<or> f = toIndex then Done s
               else Done (emit_changed
                            \<lparr>chtype = CMove, newIndex = toIndex, newValues = [c], oldIndex = f,
                              oldValues = [c]\<rparr>
                            (s\<lparr>nbcells := list_move (nat f) (nat toIndex) (nbcells s)\<rparr>))
           | _ \<Rightarrow> Threw OutOfContract s)
      | _ \<Rightarrow> Threw OutOfContract s)"

text \<open>
  The cell factory of the notebook model: a new empty cell of a type, and a cell
  of a new type made from the JSON of an old one (the metadata stay; an output
  area survives only from a code cell to a code cell).
\<close>

definition createCell :: "rtc \<Rightarrow> string \<Rightarrow> cell" where
  "createCell s ty =
     \<lparr>ctype = (if ty = ''code'' \<or> ty = ''markdown'' \<or> ty = ''raw'' then ty else defaultCell s),
      rtc_id = None, cxCount = None, prompt = None, outputs = []\<rparr>"

definition createCellFrom :: "string \<Rightarrow> cell \<Rightarrow> cell" where
  "createCellFrom ty old =
     \<lparr>ctype = ty, rtc_id = rtc_id old, cxCount = cxCount old, prompt = None,
      outputs = (if ty = ''code'' \<and> ctype old = ''code'' then outputs old else [])\<rparr>"

subsection \<open>The remote listener\<close>

datatype action = ActAdd | ActUpdate | ActDelete

record key_change =
  action :: action
  oldValue :: jsval

text \<open>
  A \<^verbatim>\<open>Y.YMapEvent\<close>: the path from the observed map to the changed map (empty for
  the map \<^verbatim>\<open>cells\<close> itself, the cell id for a record), and the changed keys in the
  order of the event's \<^verbatim>\<open>Map\<close>.
\<close>

record ymap_event =
  path :: "string list"
  changes_keys :: "(string \<times> key_change) list"

definition path0 :: "ymap_event \<Rightarrow> string option" where
  "path0 e = (case path e of [] \<Rightarrow> None | p # _ \<Rightarrow> Some p)"

text \<open>\<^verbatim>\<open>forEach\<close> of an array or a \<^verbatim>\<open>Map\<close>: a callback that throws ends the iteration.\<close>

fun forEach :: "('a \<Rightarrow> 's \<Rightarrow> 's outcome) \<Rightarrow> 'a list \<Rightarrow> 's \<Rightarrow> 's outcome" where
  "forEach f [] s = Done s"
| "forEach f (x # xs) s = thenDo (f x s) (forEach f xs)"

definition handleMoveUpdate_change :: "ymap_event \<Rightarrow> key_change \<Rightarrow> rtc \<Rightarrow> rtc outcome" where
  "handleMoveUpdate_change e change s =
     (let cid = path0 e;
          oldPosition = oldValue change
      in case ymap_get (cells s) cid of
           None \<Rightarrow> Threw TypeError s
         | Some metadata \<Rightarrow>
             let newPosition = position metadata in
             (case array_at (nbcells s) newPosition of
                None \<Rightarrow> Threw TypeError s
              | Some c \<Rightarrow>
                  if rtc_id c = cid then Done s
                  else cells_move oldPosition newPosition s))"

definition handleMoveUpdate :: "ymap_event \<Rightarrow> rtc \<Rightarrow> rtc outcome" where
  "handleMoveUpdate e s = forEach (handleMoveUpdate_change e) (map snd (changes_keys e)) s"

definition switchType :: "ymap_event \<Rightarrow> rtc \<Rightarrow> rtc outcome" where
  "switchType e s =
     (let cid = path0 e in
      case ymap_get (cells s) cid of
        None \<Rightarrow> Threw TypeError s
      | Some metadata \<Rightarrow>
          let ty = btype metadata in
          (case array_at (nbcells s) (position metadata) of
             None \<Rightarrow> Threw TypeError s
           | Some oldCell \<Rightarrow>
               if ctype oldCell = ty then Done s
               else if ty = ''markdown'' \<or> ty = ''code'' \<or> ty = ''raw''
               then cells_set (position metadata) (createCellFrom ty oldCell) s
               else Done s))"

text \<open>
  \<^verbatim>\<open>handleExecution\<close>. The file \<^verbatim>\<open>src/RTCNotebook.tsx\<close> returns when the count cached
  in the cell's metadata equals the count of the record; the second copy of the
  class has no such test. \<^verbatim>\<open>CodeCell.execute\<close> is an async function, so a cell that is
  \<^verbatim>\<open>undefined\<close> does not throw in the caller.
\<close>

definition handleExecution :: "impl \<Rightarrow> ymap_event \<Rightarrow> rtc \<Rightarrow> rtc outcome" where
  "handleExecution v e s =
     (let cid = path0 e in
      case getCellIndex s cid of
        Inl err \<Rightarrow> Threw err s
      | Inr i \<Rightarrow>
          let cell' = array_at (nbcells s) i in
          (case v of
             Named \<Rightarrow>
               (case ymap_get (cells s) cid of
                  None \<Rightarrow> Threw TypeError s
                | Some metadata \<Rightarrow>
                    let currentVal = xCount metadata in
                    (case cell' of
                       None \<Rightarrow> Threw TypeError s
                     | Some c \<Rightarrow>
                         if cxCount c = currentVal then Done s
                         else Done (s\<lparr>backend := backend s @ [Execute cell']\<rparr>)))
           | Second \<Rightarrow> Done (s\<lparr>backend := backend s @ [Execute cell']\<rparr>)))"

definition handleOutputChange :: "string option \<Rightarrow> rtc \<Rightarrow> rtc outcome" where
  "handleOutputChange cid s =
     (case ymap_get (cells s) cid of
        None \<Rightarrow> Threw TypeError s
      | Some metadata \<Rightarrow>
          (case array_at (nbcells s) (position metadata) of
             None \<Rightarrow> Threw TypeError s
           | Some c \<Rightarrow>
               if ctype c = ''code''
               then Done (s\<lparr>nbcells := (nbcells s)[nat (position metadata) :=
                            c\<lparr>outputs := boutput metadata\<rparr>]\<rparr>)
               else Done s))"

definition handleTag :: "string option \<Rightarrow> rtc \<Rightarrow> rtc outcome" where
  "handleTag cid s =
     (case ymap_get (cells s) cid of
        None \<Rightarrow> Threw TypeError s
      | Some metadata \<Rightarrow>
          (case array_at (nbcells s) (position metadata) of
             None \<Rightarrow> Threw TypeError s
           | Some c \<Rightarrow>
               Done (s\<lparr>nbcells := (nbcells s)[nat (position metadata) :=
                       c\<lparr>prompt := tag metadata\<rparr>]\<rparr>)))"

definition remote_add :: "string \<Rightarrow> rtc \<Rightarrow> rtc outcome" where
  "remote_add cid s =
     (case cells s cid of
        None \<Rightarrow> Threw TypeError s
      | Some metadata \<Rightarrow>
          let cellModel = (createCell s (btype metadata))\<lparr>rtc_id := Some cid, cxCount := Some 0\<rparr>;
              pos = position metadata
          in thenDo (cells_insert pos cellModel s)
               (\<lambda>s1. bindCell (array_at (nbcells s1) pos) s1))"

text \<open>The loop over the cells that removes the first cell carrying the id.\<close>

fun find_cell :: "string \<Rightarrow> cell list \<Rightarrow> int \<Rightarrow> int option" where
  "find_cell cid [] i = None"
| "find_cell cid (c # cs) i = (if rtc_id c = Some cid then Some i else find_cell cid cs (i + 1))"

definition remote_delete :: "string \<Rightarrow> rtc \<Rightarrow> rtc outcome" where
  "remote_delete cid s =
     (case map_of (bindings s) (Some cid) of
        None \<Rightarrow> Threw TypeError s
      | Some b \<Rightarrow>
          let s1 = s\<lparr>destroyed := destroyed s @ [b]\<rparr>;
              s2 = s1\<lparr>bindings := AList.delete (Some cid) (bindings s1)\<rparr>
          in (case find_cell cid (nbcells s2) 0 of
                None \<Rightarrow> Done s2
              | Some i \<Rightarrow> cells_remove i s2))"

definition remote_change :: "string \<times> key_change \<Rightarrow> rtc \<Rightarrow> rtc outcome" where
  "remote_change kc s =
     (case action (snd kc) of
        ActAdd \<Rightarrow> remote_add (fst kc) s
      | ActDelete \<Rightarrow> remote_delete (fst kc) s
      | ActUpdate \<Rightarrow> Done s)"

definition invoked :: "handler \<Rightarrow> rtc \<Rightarrow> rtc" where
  "invoked h s = s\<lparr>handled := handled s @ [h]\<rparr>"

definition first_key :: "ymap_event \<Rightarrow> string option" where
  "first_key e = (case changes_keys e of [] \<Rightarrow> None | kc # _ \<Rightarrow> Some (fst kc))"

definition remote_event :: "impl \<Rightarrow> ymap_event \<Rightarrow> rtc \<Rightarrow> rtc outcome" where
  "remote_event v mapEvent s =
     (if path mapEvent \<noteq> [] then
        (let change = first_key mapEvent in
         if change = Some ''position'' then handleMoveUpdate mapEvent (invoked HMove s)
         else if change = Some ''type'' then switchType mapEvent (invoked HType s)
         else if change = Some ''xCount'' then
           (if hosting s then handleExecution v mapEvent (invoked HExecution s) else Done s)
         else if change = Some ''output'' then
           (if \<not> hosting s then handleOutputChange (path0 mapEvent) (invoked HOutput s) else Done s)
         else if change = Some ''tag'' then handleTag (path0 mapEvent) (invoked HTag s)
         else Done s)
      else forEach remote_change (changes_keys mapEvent) s)"

text \<open>The observer of the map; \<open>origin\<close> says that the transaction has an origin.\<close>

definition remoteListenerFunction :: "impl \<Rightarrow> ymap_event list \<Rightarrow> bool \<Rightarrow> rtc \<Rightarrow> rtc outcome" where
  "remoteListenerFunction v e origin s = (if origin then forEach (remote_event v) e s else Done s)"

subsection \<open>The host pointer and the execution listener\<close>

definition ytext_delete :: "nat \<Rightarrow> nat \<Rightarrow> string \<Rightarrow> string" where
  "ytext_delete i n t = take i t @ drop (i + n) t"

definition ytext_insert :: "nat \<Rightarrow> string \<Rightarrow> string \<Rightarrow> string" where
  "ytext_insert i x t = take i t @ x @ drop i t"

definition becomeHost :: "rtc \<Rightarrow> rtc" where
  "becomeHost s = (let s1 = s\<lparr>hosting := True\<rparr> in s1\<lparr>backend := backend s1 @ [ChangeKernel]\<rparr>)"

text \<open>
  The observer that \<^verbatim>\<open>hostChangeListener\<close> puts on the Y.Text of the host, run on the
  inserted text of a change; it runs for the changes of this client too.
\<close>

definition hostListenerFunction :: "string \<Rightarrow> rtc \<Rightarrow> rtc" where
  "hostListenerFunction inserted s =
     (let s1 = s\<lparr>owner := Some inserted\<rparr> in
      if inserted = username s1 then becomeHost s1 else s1)"

definition notebookHost_delete :: "nat \<Rightarrow> nat \<Rightarrow> rtc \<Rightarrow> rtc" where
  "notebookHost_delete i n s = s\<lparr>notebookHost := ytext_delete i n (notebookHost s)\<rparr>"

definition notebookHost_insert :: "nat \<Rightarrow> string \<Rightarrow> rtc \<Rightarrow> rtc" where
  "notebookHost_insert i x s =
     (if x = [] then s
      else let s1 = s\<lparr>notebookHost := ytext_insert i x (notebookHost s)\<rparr> in
           if hostListenerOn s1 then hostListenerFunction x s1 else s1)"

fun checkHostActive_loop :: "(nat \<times> string) list \<Rightarrow> string \<Rightarrow> bool \<Rightarrow> bool" where
  "checkHostActive_loop [] host isActive = isActive"
| "checkHostActive_loop (st # rest) host isActive =
     checkHostActive_loop rest host (if snd st = host then True else isActive)"

definition checkHostActive :: "rtc \<Rightarrow> bool" where
  "checkHostActive s = checkHostActive_loop (awareness s) (notebookHost s) False"

text \<open>
  The arguments of the signal \<^verbatim>\<open>NotebookActions.executed\<close>: the cell that was run is a
  widget of this notebook, given by its index, or of another notebook.
\<close>

datatype executed_args = ThisNotebook int | OtherNotebook

definition localExecutionListenerSlot :: "executed_args \<Rightarrow> rtc \<Rightarrow> rtc outcome" where
  "localExecutionListenerSlot args s =
     (case args of
        OtherNotebook \<Rightarrow> Done s
      | ThisNotebook i \<Rightarrow>
          (case array_at (nbcells s) i of
             None \<Rightarrow> Threw TypeError s
           | Some c \<Rightarrow>
               let cellID = rtc_id c in
               if ctype c = ''code'' then
                 let s1 = s\<lparr>nbcells := (nbcells s)[nat i := c\<lparr>prompt := Some ''*''\<rparr>]\<rparr>;
                     s2 = (if \<not> checkHostActive s1
                           then becomeHost
                                  (notebookHost_insert 0 (username s1)
                                     (notebookHost_delete 0 (length (notebookHost s1))
                                        (s1\<lparr>hosting := True\<rparr>)))
                           else s1)
                 in (case (cellID, ymap_get (cells s2) cellID) of
                       (Some k, Some metadata) \<Rightarrow>
                         let currentCount = (case xCount metadata of None \<Rightarrow> 1 | Some n \<Rightarrow> n + 1)
                         in Done (s2\<lparr>cells := (cells s2)(k \<mapsto> metadata\<lparr>xCount := Some currentCount\<rparr>)\<rparr>)
                     | _ \<Rightarrow> Threw TypeError s2)
               else Done s))"

definition initLocalExecutionListener :: "rtc \<Rightarrow> rtc" where
  "initLocalExecutionListener s =
     (if \<not> hosting s then s\<lparr>executionSlotDefined := True, executionListenerOn := True\<rparr> else s)"

text \<open>The signal \<^verbatim>\<open>NotebookActions.executed\<close> runs the slot when it is connected.\<close>

definition executed_signal :: "executed_args \<Rightarrow> rtc \<Rightarrow> rtc" where
  "executed_signal args s =
     (if executionListenerOn s then final (localExecutionListenerSlot args s) else s)"

subsection \<open>Host handoff and close\<close>

fun indexOf_from :: "'a \<Rightarrow> 'a list \<Rightarrow> int \<Rightarrow> int" where
  "indexOf_from x [] i = - 1"
| "indexOf_from x (y # ys) i = (if y = x then i else indexOf_from x ys (i + 1))"

definition indexOf :: "'a \<Rightarrow> 'a list \<Rightarrow> int" where
  "indexOf x xs = indexOf_from x xs 0"

text \<open>\<^verbatim>\<open>splice(start, 1)\<close>: a negative start counts from the end.\<close>

definition splice1 :: "int \<Rightarrow> 'a list \<Rightarrow> 'a list" where
  "splice1 start xs =
     (let n = int (length xs);
          st = (if start < 0 then max (n + start) 0 else min start n)
      in take (nat st) xs @ drop (Suc (nat st)) xs)"

text \<open>
  \<^verbatim>\<open>handleHostChange\<close>. \<open>rnd\<close> is the value of \<^verbatim>\<open>Math.random()\<close> and \<open>fmul\<close> is the
  multiplication of two doubles, which rounds its result: the product is not the
  product of the real numbers, so the multiplication is a parameter.
\<close>

definition handleHostChange :: "(real \<Rightarrow> real \<Rightarrow> real) \<Rightarrow> real \<Rightarrow> rtc \<Rightarrow> rtc outcome" where
  "handleHostChange fmul rnd s =
     (let states = map fst (awareness s) in
      if length states > 1 then
        let states1 = splice1 (indexOf (clientID s) states) states;
            randomHost = array_at states1 \<lfloor>fmul rnd (real (length states1))\<rfloor>
        in (case randomHost of
              None \<Rightarrow> Threw TypeError s
            | Some h \<Rightarrow>
                (case map_of (awareness s) h of
                   None \<Rightarrow> Threw TypeError s
                 | Some hostName \<Rightarrow>
                     Done (notebookHost_insert 0 hostName
                             (notebookHost_delete 0 (length (notebookHost s)) s))))
      else Done s)"

definition disconnectListeners :: "impl \<Rightarrow> rtc \<Rightarrow> rtc" where
  "disconnectListeners v s =
     (let s1 = s\<lparr>localListenerOn := False\<rparr>;
          s2 = s1\<lparr>remoteListenerOn := False\<rparr>;
          s3 = (case v of Named \<Rightarrow> s2 | Second \<Rightarrow> s2\<lparr>hostListenerOn := False\<rparr>);
          s4 = (if executionSlotDefined s3 then s3\<lparr>executionListenerOn := False\<rparr> else s3);
          s5 = s4\<lparr>closeHandlerOn := False\<rparr>
      in s5\<lparr>saveHandlerOn := False\<rparr>)"

text \<open>
  \<^verbatim>\<open>close\<close>. The callback of \<^verbatim>\<open>bindings.forEach\<close> is the expression statement
  \<^verbatim>\<open>binding.destroy\<close>: it reads the method and does not call it.
\<close>

definition close :: "impl \<Rightarrow> rtc \<Rightarrow> rtc" where
  "close v s =
     (let s1 = fold (\<lambda>binding s'. s') (map snd (bindings s)) s;
          s2 = s1\<lparr>bindings := []\<rparr>;
          s3 = disconnectListeners v s2
      in s3\<lparr>wsDestroyed := True\<rparr>)"

subsection \<open>Predicates used in the statements\<close>



text \<open>
  A change of the notebook's cell list that replays a remote change: an add whose
  cell carries an id already, a remove whose id has no binding, a move to the same
  index or to the index the record holds already.
\<close>

definition replay :: "rtc \<Rightarrow> changed_args \<Rightarrow> bool" where
  "replay s changed =
     (case chtype changed of
        CAdd \<Rightarrow>
          (case array_at (nbcells s) (newIndex changed) of
             None \<Rightarrow> False
           | Some c \<Rightarrow> truthy (rtc_id c))
      | CRemove \<Rightarrow>
          (case oldValues changed of
             [] \<Rightarrow> False
           | old # _ \<Rightarrow> map_of (bindings s) (rtc_id old) = None)
      | CSet \<Rightarrow> False
      | CMove \<Rightarrow>
          (case oldValues changed of
             [] \<Rightarrow> False
           | old # _ \<Rightarrow>
               oldIndex changed = newIndex changed \<or>
               (case ymap_get (cells s) (rtc_id old) of
                  None \<Rightarrow> False
                | Some r \<Rightarrow> position r = newIndex changed)))"

text \<open>
  Two states with the same log of backend calls, the same log of invoked handlers
  and the same hosting flag.
\<close>

definition same_logs :: "rtc \<Rightarrow> rtc \<Rightarrow> bool" where
  "same_logs s s' = (backend s' = backend s \<and> handled s' = handled s \<and> hosting s' = hosting s)"

text \<open>A record after one more request for execution.\<close>

definition bumped :: "block \<Rightarrow> block" where
  "bumped m = m\<lparr>xCount := Some (case xCount m of None \<Rightarrow> 1 | Some n \<Rightarrow> n + 1)\<rparr>"

text \<open>The clients of the awareness states other than this client, in the order of the states.\<close>

definition other_clients :: "rtc \<Rightarrow> nat list" where
  "other_clients s = remove1 (clientID s) (map fst (awareness s))"

subsection \<open>A concrete session\<close>

definition cell_a :: cell where
  "cell_a = \<lparr>ctype = ''code'', rtc_id = Some ''a'', cxCount = Some 0, prompt = None, outputs = []\<rparr>"

definition cell_b :: cell where
  "cell_b = \<lparr>ctype = ''code'', rtc_id = Some ''b'', cxCount = Some 0, prompt = None, outputs = []\<rparr>"

definition block_at :: "int \<Rightarrow> block" where
  "block_at p = \<lparr>btype = ''code'', position = p, xCount = Some 0, boutput = [], tag = None\<rparr>"

text \<open>
  Two code cells \<open>a\<close> and \<open>b\<close>, both bound; the user \<open>ann\<close> is a peer (client 1),
  the host \<open>bob\<close> (client 2) is present.
\<close>

definition session0 :: rtc where
  "session0 = \<lparr>
     cells = [''a'' \<mapsto> block_at 0, ''b'' \<mapsto> block_at 1],
     nbcells = [cell_a, cell_b],
     bindings = [(Some ''a'', 0), (Some ''b'', 1)],
     hosting = False,
     username = ''ann'',
     notebookHost = ''bob'',
     owner = Some ''bob'',
     defaultCell = ''code'',
     awareness = [(1, ''ann''), (2, ''bob'')],
     clientID = 1,
     localListenerOn = True,
     remoteListenerOn = True,
     hostListenerOn = True,
     executionSlotDefined = True,
     executionListenerOn = True,
     closeHandlerOn = True,
     saveHandlerOn = True,
     wsDestroyed = False,
     backend = [],
     destroyed = [],
     handled = [],
     nextBinding = 2,
     uuidSource = (\<lambda>n. ''u''),
     uuidCount = 0\<rparr>"




text \<open>
  The session in which a remote client moved \<open>a\<close> to index 1 and made it a markdown
  cell in one transaction: the records are changed, the notebook is not yet.
\<close>

definition session_moved :: rtc where
  "session_moved = session0\<lparr>cells := [''a'' \<mapsto> (block_at 1)\<lparr>btype := ''markdown''\<rparr>,
                                          ''b'' \<mapsto> block_at 0]\<rparr>"

text \<open>The same session seen from the host \<open>bob\<close>, and with a third client present.\<close>

definition host0 :: rtc where
  "host0 = session0\<lparr>hosting := True, username := ''bob'', clientID := 2\<rparr>"

text \<open>The host \<open>bob\<close> with a second client of the same user: two tabs of one user.\<close>

definition session_dup :: rtc where
  "session_dup = session0\<lparr>hosting := True, username := ''bob'', clientID := 2,
      awareness := [(2, ''bob''), (5, ''bob'')]\<rparr>"

definition session3 :: rtc where
  "session3 = session0\<lparr>hosting := True, username := ''bob'', clientID := 2,
      awareness := [(1, ''ann''), (2, ''bob''), (3, ''cy'')]\<rparr>"

text \<open>
  Remote events: a change of \<^verbatim>\<open>xCount\<close> of the record of \<open>a\<close>; a change of both
  \<^verbatim>\<open>position\<close> and \<^verbatim>\<open>type\<close> of that record in one transaction, with either key first;
  the deletion of an id \<open>x\<close> from the map.
\<close>

definition xcount_event :: ymap_event where
  "xcount_event = \<lparr>path = [''a''],
     changes_keys = [(''xCount'', \<lparr>action = ActUpdate, oldValue = JNum 0\<rparr>)]\<rparr>"

definition position_type_event :: ymap_event where
  "position_type_event = \<lparr>path = [''a''],
     changes_keys = [(''position'', \<lparr>action = ActUpdate, oldValue = JNum 0\<rparr>),
                     (''type'', \<lparr>action = ActUpdate, oldValue = JStr ''code''\<rparr>)]\<rparr>"

definition type_position_event :: ymap_event where
  "type_position_event = \<lparr>path = [''a''],
     changes_keys = [(''type'', \<lparr>action = ActUpdate, oldValue = JStr ''code''\<rparr>),
                     (''position'', \<lparr>action = ActUpdate, oldValue = JNum 0\<rparr>)]\<rparr>"

definition delete_event :: ymap_event where
  "delete_event = \<lparr>path = [], changes_keys = [(''x'', \<lparr>action = ActDelete, oldValue = JOther\<rparr>)]\<rparr>"




section \<open>Properties\<close>

subsection \<open>The loop of adjustIndexes\<close>

















lemma adjustIndexes_final:
  "final (adjustIndexes a b s) =
     s\<lparr>cells := final (adjustIndexes_loop (nbcells s) (min a b) (max a b) (cells s))\<rparr>"
  by (cases "adjustIndexes_loop (nbcells s) (min a b) (max a b) (cells s)")
     (auto simp: adjustIndexes_def Let_def min_def max_def)




subsection \<open>Reindexing\<close>





subsection \<open>Echo suppression in the local listener\<close>

text \<open>
  Claim C1. A change of the cell list that replays a remote change (an add whose
  cell carries a non-empty \<^verbatim>\<open>rtc-id\<close>, a remove whose id has no binding, a move
  whose indices are equal or whose record holds the new index already) leaves the
  map \<^verbatim>\<open>cells\<close> as it was: the listener returns without throwing and without any
  mutation of the state.
\<close>

theorem replay_leaves_cells:
  "replay s changed \<Longrightarrow>
     localListenerSlot changed s = Done s \<and> cells (final (localListenerSlot changed s)) = cells s"
  by (cases "chtype changed")
     (auto simp: replay_def localListenerSlot_def localListener_add_def localListener_remove_def
        localListener_move_def split: option.splits list.splits)

text \<open>An add, a remove and a move that replay remote changes, on the concrete session.\<close>

theorem replay_leaves_cells_witness:
  "replay session0 \<lparr>chtype = CAdd, newIndex = 0, newValues = [cell_a], oldIndex = - 1, oldValues = []\<rparr>
   \<and> localListenerSlot \<lparr>chtype = CAdd, newIndex = 0, newValues = [cell_a], oldIndex = - 1, oldValues = []\<rparr> session0
       = Done session0
   \<and> replay session0 \<lparr>chtype = CRemove, newIndex = - 1, newValues = [], oldIndex = 2,
         oldValues = [cell_a\<lparr>rtc_id := Some ''c''\<rparr>]\<rparr>
   \<and> localListenerSlot \<lparr>chtype = CRemove, newIndex = - 1, newValues = [], oldIndex = 2,
         oldValues = [cell_a\<lparr>rtc_id := Some ''c''\<rparr>]\<rparr> session0 = Done session0
   \<and> replay session0 \<lparr>chtype = CMove, newIndex = 0, newValues = [cell_a], oldIndex = 1, oldValues = [cell_a]\<rparr>
   \<and> localListenerSlot \<lparr>chtype = CMove, newIndex = 0, newValues = [cell_a], oldIndex = 1, oldValues = [cell_a]\<rparr>
         session0 = Done session0"
proof -
  let ?add = "\<lparr>chtype = CAdd, newIndex = 0, newValues = [cell_a], oldIndex = - 1, oldValues = []\<rparr>"
  let ?rem = "\<lparr>chtype = CRemove, newIndex = - 1, newValues = [], oldIndex = 2,
         oldValues = [cell_a\<lparr>rtc_id := Some ''c''\<rparr>]\<rparr>"
  let ?mov = "\<lparr>chtype = CMove, newIndex = 0, newValues = [cell_a], oldIndex = 1, oldValues = [cell_a]\<rparr>"
  have a: "replay session0 ?add"
    by (simp add: replay_def array_at_def session0_def cell_a_def)
  have r: "replay session0 ?rem"
    by (simp add: replay_def session0_def cell_a_def)
  have m: "replay session0 ?mov"
    by (simp add: replay_def session0_def cell_a_def block_at_def)
  from replay_leaves_cells[OF a] replay_leaves_cells[OF r] replay_leaves_cells[OF m] a r m
  show ?thesis by blast
qed

subsection \<open>What the handlers leave alone\<close>

lemma same_logs_refl [simp]: "same_logs s s"
  by (simp add: same_logs_def)

lemma same_logs_trans: "same_logs s t \<Longrightarrow> same_logs t u \<Longrightarrow> same_logs s u"
  by (simp add: same_logs_def)

lemma same_logs_thenDo:
  "same_logs s (final a) \<Longrightarrow> (\<And>t. same_logs t (final (g t))) \<Longrightarrow> same_logs s (final (thenDo a g))"
  by (cases a) (auto intro: same_logs_trans)

lemma same_logs_forEach:
  "(\<And>x t. same_logs t (final (f x t))) \<Longrightarrow> same_logs s (final (forEach f xs s))"
proof (induction xs arbitrary: s)
  case Nil
  show ?case by simp
next
  case (Cons x xs)
  show ?case
    unfolding forEach.simps
    by (rule same_logs_thenDo) (use Cons in blast)+
qed

lemma same_logs_bindCell: "same_logs s (final (bindCell c s))"
  by (simp add: bindCell_def same_logs_def Let_def split: option.splits)

lemma same_logs_adjustIndexes: "same_logs s (final (adjustIndexes a b s))"
  by (simp add: adjustIndexes_final same_logs_def)

lemma same_logs_add: "same_logs s (final (localListener_add changed s))"
proof (cases "array_at (nbcells s) (newIndex changed)")
  case None
  then show ?thesis by (simp add: localListener_add_def)
next
  case (Some c)
  show ?thesis
  proof (cases "truthy (rtc_id c)")
    case True
    with Some show ?thesis by (simp add: localListener_add_def)
  next
    case False
    let ?s2 = "s\<lparr>uuidCount := Suc (uuidCount s),
                 nbcells := (nbcells s)[nat (newIndex changed) := c\<lparr>rtc_id := Some (uuid s), cxCount := Some 0\<rparr>]\<rparr>"
    have a: "same_logs s ?s2" by (simp add: same_logs_def)
    have "same_logs ?s2 (final (thenDo (bindCell (array_at (nbcells ?s2) (newIndex changed)) ?s2) g))"
      if "\<And>t. same_logs t (final (g t))" for g
      by (rule same_logs_thenDo[OF same_logs_bindCell that])
    moreover have "same_logs t (final (
        let s4 = t\<lparr>cells := (cells t)(k \<mapsto> md)\<rparr> in
                 if newIndex changed < int (length (nbcells s4)) - 1
                 then adjustIndexes (newIndex changed + 1) (int (length (nbcells s4)) - 1) s4
                 else Done s4))" for t k md
      by (auto simp: Let_def same_logs_def adjustIndexes_final)
    ultimately show ?thesis using Some False a
      by (auto simp: localListener_add_def Let_def intro: same_logs_trans)
  qed
qed

lemma same_logs_remove: "same_logs s (final (localListener_remove changed s))"
  by (auto simp: localListener_remove_def Let_def same_logs_def adjustIndexes_final
      split: list.splits option.splits)

lemma same_logs_set: "same_logs s (final (localListener_set changed s))"
proof -
  have "same_logs t (final (
       case (rid, ymap_get (cells t) rid, array_at (nbcells t) i) of
                           (Some k, Some metadata, Some c) \<Rightarrow>
                             if btype metadata \<noteq> ctype c
                             then Done (t\<lparr>cells := (cells t)(k \<mapsto> metadata\<lparr>btype := ctype c\<rparr>)\<rparr>)
                             else Done t
                         | _ \<Rightarrow> Threw TypeError t))" for t rid i
    by (auto simp: same_logs_def split: option.splits)
  then show ?thesis
    by (auto simp: localListener_set_def Let_def split: list.splits sum.splits
        intro!: same_logs_thenDo same_logs_bindCell)
qed

lemma same_logs_move: "same_logs s (final (localListener_move changed s))"
  by (auto simp: localListener_move_def Let_def same_logs_def adjustIndexes_final
      split: list.splits option.splits)

lemma same_logs_localListenerSlot: "same_logs s (final (localListenerSlot changed s))"
  by (cases "chtype changed")
     (simp_all add: localListenerSlot_def same_logs_add same_logs_remove same_logs_set same_logs_move)

lemma same_logs_emit: "same_logs s t \<Longrightarrow> same_logs s (emit_changed changed t)"
  by (auto simp: emit_changed_def intro: same_logs_trans same_logs_localListenerSlot)

lemma same_logs_cells_insert: "same_logs s (final (cells_insert i c s))"
  by (auto simp: cells_insert_def intro!: same_logs_emit) (simp add: same_logs_def)

lemma same_logs_cells_remove: "same_logs s (final (cells_remove i s))"
  by (auto simp: cells_remove_def split: option.splits intro!: same_logs_emit) (simp add: same_logs_def)

lemma same_logs_cells_set: "same_logs s (final (cells_set i c s))"
  by (auto simp: cells_set_def split: option.splits intro!: same_logs_emit) (simp add: same_logs_def)

lemma same_logs_cells_move: "same_logs s (final (cells_move f t s))"
  by (auto simp: cells_move_def split: option.splits jsval.splits intro!: same_logs_emit)
     (simp add: same_logs_def)

lemma same_logs_handleMoveUpdate: "same_logs s (final (handleMoveUpdate e s))"
  unfolding handleMoveUpdate_def
  by (rule same_logs_forEach)
     (auto simp: handleMoveUpdate_change_def Let_def same_logs_cells_move split: option.splits)

lemma same_logs_switchType: "same_logs s (final (switchType e s))"
  by (auto simp: switchType_def Let_def same_logs_cells_set split: option.splits)

lemma same_logs_handleOutputChange: "same_logs s (final (handleOutputChange cid s))"
  by (auto simp: handleOutputChange_def same_logs_def split: option.splits)

lemma same_logs_handleTag: "same_logs s (final (handleTag cid s))"
  by (auto simp: handleTag_def same_logs_def split: option.splits)

lemma same_logs_remote_add: "same_logs s (final (remote_add cid s))"
  by (auto simp: remote_add_def Let_def split: option.splits
      intro!: same_logs_thenDo same_logs_cells_insert same_logs_bindCell)

lemma same_logs_remote_delete: "same_logs s (final (remote_delete cid s))"
proof (cases "map_of (bindings s) (Some cid)")
  case None
  then show ?thesis by (simp add: remote_delete_def)
next
  case (Some b)
  let ?s2 = "s\<lparr>destroyed := destroyed s @ [b], bindings := AList.delete (Some cid) (bindings s)\<rparr>"
  have "same_logs s ?s2" by (simp add: same_logs_def)
  moreover have "same_logs ?s2 (final (cells_remove i ?s2))" for i
    by (rule same_logs_cells_remove)
  ultimately show ?thesis using Some
    by (auto simp: remote_delete_def Let_def split: option.splits intro: same_logs_trans)
qed

lemma same_logs_remote_change: "same_logs s (final (remote_change kc s))"
  by (cases "action (snd kc)")
     (simp_all add: remote_change_def same_logs_remote_add same_logs_remote_delete)

lemma same_logs_handleExecution_handled:
  "handled (final (handleExecution v e s)) = handled s \<and> hosting (final (handleExecution v e s)) = hosting s"
  by (auto simp: handleExecution_def Let_def split: option.splits sum.splits impl.splits)

lemma invoked_simps [simp]:
  "handled (invoked h s) = handled s @ [h]" "backend (invoked h s) = backend s"
  "hosting (invoked h s) = hosting s"
  by (simp_all add: invoked_def)

lemma same_logsD:
  "same_logs s t \<Longrightarrow> backend t = backend s \<and> handled t = handled s \<and> hosting t = hosting s"
  by (simp add: same_logs_def)

lemma handled_remote_event:
  "path e \<noteq> [] \<Longrightarrow>
   handled (final (remote_event v e s)) = handled s @
     (if first_key e = Some ''position'' then [HMove]
      else if first_key e = Some ''type'' then [HType]
      else if first_key e = Some ''xCount'' then (if hosting s then [HExecution] else [])
      else if first_key e = Some ''output'' then (if \<not> hosting s then [HOutput] else [])
      else if first_key e = Some ''tag'' then [HTag]
      else [])"
proof -
  assume p: "path e \<noteq> []"
  note mv = same_logsD[OF same_logs_handleMoveUpdate, of e "invoked HMove s"]
  note ty = same_logsD[OF same_logs_switchType, of e "invoked HType s"]
  note ou = same_logsD[OF same_logs_handleOutputChange, of "path0 e" "invoked HOutput s"]
  note tg = same_logsD[OF same_logs_handleTag, of "path0 e" "invoked HTag s"]
  note ex = same_logs_handleExecution_handled[of v e "invoked HExecution s"]
  from p mv ty ou tg ex show ?thesis
    by (simp add: remote_event_def Let_def)
qed

lemma remote_event_non_host:
  "backend s = B \<and> \<not> hosting s \<Longrightarrow>
   backend (final (remote_event v e s)) = B \<and> \<not> hosting (final (remote_event v e s))"
proof -
  assume a: "backend s = B \<and> \<not> hosting s"
  note mv = same_logsD[OF same_logs_handleMoveUpdate, of e "invoked HMove s"]
  note ty = same_logsD[OF same_logs_switchType, of e "invoked HType s"]
  note ou = same_logsD[OF same_logs_handleOutputChange, of "path0 e" "invoked HOutput s"]
  note tg = same_logsD[OF same_logs_handleTag, of "path0 e" "invoked HTag s"]
  have "same_logs s (final (forEach remote_change (changes_keys e) s))"
    by (rule same_logs_forEach) (rule same_logs_remote_change)
  note fe = same_logsD[OF this]
  from a mv ty ou tg fe show ?thesis
    by (simp add: remote_event_def Let_def)
qed

lemma remote_events_non_host:
  "backend s = B \<and> \<not> hosting s \<Longrightarrow>
   backend (final (forEach (remote_event v) es s)) = B \<and>
   \<not> hosting (final (forEach (remote_event v) es s))"
proof (induction es arbitrary: s)
  case Nil
  then show ?case by simp
next
  case (Cons e es)
  note step = remote_event_non_host[OF Cons.prems, of v e]
  show ?case
  proof (cases "remote_event v e s")
    case (Done t)
    with step have "backend t = B \<and> \<not> hosting t" by simp
    from Cons.IH[OF this] Done show ?thesis by simp
  next
    case (Threw err t)
    with step show ?thesis by simp
  qed
qed

lemma remote_event_non_host_trace:
  "backend s = B \<and> \<not> hosting s \<and> HExecution \<notin> set (handled s) \<Longrightarrow>
   backend (final (remote_event v e s)) = B \<and> \<not> hosting (final (remote_event v e s))
   \<and> HExecution \<notin> set (handled (final (remote_event v e s)))"
proof -
  assume a: "backend s = B \<and> \<not> hosting s \<and> HExecution \<notin> set (handled s)"
  then have b: "backend s = B \<and> \<not> hosting s" by simp
  have "HExecution \<notin> set (handled (final (remote_event v e s)))"
  proof (cases "path e = []")
    case True
    have "same_logs s (final (forEach remote_change (changes_keys e) s))"
      by (rule same_logs_forEach) (rule same_logs_remote_change)
    from same_logsD[OF this] True a show ?thesis by (simp add: remote_event_def)
  next
    case False
    from handled_remote_event[OF False, of v s] a show ?thesis by simp
  qed
  with remote_event_non_host[OF b, of v e] show ?thesis by simp
qed

lemma remote_events_non_host_trace:
  "backend s = B \<and> \<not> hosting s \<and> HExecution \<notin> set (handled s) \<Longrightarrow>
   backend (final (forEach (remote_event v) es s)) = B \<and>
   \<not> hosting (final (forEach (remote_event v) es s)) \<and>
   HExecution \<notin> set (handled (final (forEach (remote_event v) es s)))"
proof (induction es arbitrary: s)
  case Nil
  then show ?case by simp
next
  case (Cons e es)
  note step = remote_event_non_host_trace[OF Cons.prems, of v e]
  show ?case
  proof (cases "remote_event v e s")
    case (Done t)
    with step have "backend t = B \<and> \<not> hosting t \<and> HExecution \<notin> set (handled t)" by simp
    from Cons.IH[OF this] Done show ?thesis by simp
  next
    case (Threw err t)
    with step show ?thesis by simp
  qed
qed

subsection \<open>The execution listener\<close>

lemma checkHostActive_loop_iff:
  "checkHostActive_loop sts host b \<longleftrightarrow> b \<or> (\<exists>st\<in>set sts. snd st = host)"
  by (induction sts arbitrary: b) auto

lemma checkHostActive_iff:
  "checkHostActive s \<longleftrightarrow> (\<exists>st\<in>set (awareness s). snd st = notebookHost s)"
  by (simp add: checkHostActive_def checkHostActive_loop_iff)

lemma rewrite_host:
  "notebookHost (notebookHost_insert 0 x (notebookHost_delete 0 (length (notebookHost s)) s)) = x"
  by (simp add: notebookHost_insert_def notebookHost_delete_def ytext_insert_def ytext_delete_def
      hostListenerFunction_def becomeHost_def Let_def)

lemma becomeHost_simps [simp]:
  "hosting (becomeHost s)" "backend (becomeHost s) = backend s @ [ChangeKernel]"
  "notebookHost (becomeHost s) = notebookHost s" "cells (becomeHost s) = cells s"
  "nbcells (becomeHost s) = nbcells s"
  by (simp_all add: becomeHost_def Let_def)

lemma rewrite_host_frame:
  "cells (notebookHost_insert 0 x (notebookHost_delete 0 n s)) = cells s"
  "nbcells (notebookHost_insert 0 x (notebookHost_delete 0 n s)) = nbcells s"
  "\<exists>k. backend (notebookHost_insert 0 x (notebookHost_delete 0 n s)) = backend s @ replicate k ChangeKernel"
proof -
  show "cells (notebookHost_insert 0 x (notebookHost_delete 0 n s)) = cells s"
    by (simp add: notebookHost_insert_def notebookHost_delete_def hostListenerFunction_def
        becomeHost_def Let_def)
  show "nbcells (notebookHost_insert 0 x (notebookHost_delete 0 n s)) = nbcells s"
    by (simp add: notebookHost_insert_def notebookHost_delete_def hostListenerFunction_def
        becomeHost_def Let_def)
  have "backend (notebookHost_insert 0 x (notebookHost_delete 0 n s)) = backend s @ replicate 0 ChangeKernel
      \<or> backend (notebookHost_insert 0 x (notebookHost_delete 0 n s)) = backend s @ replicate 1 ChangeKernel"
    by (simp add: notebookHost_insert_def notebookHost_delete_def hostListenerFunction_def
        becomeHost_def Let_def)
  then show "\<exists>k. backend (notebookHost_insert 0 x (notebookHost_delete 0 n s)) = backend s @ replicate k ChangeKernel"
    by blast
qed

lemma slot_present:
  assumes w: "array_at (nbcells s) i = Some c" and code: "ctype c = ''code''"
    and act: "checkHostActive s"
  shows "localExecutionListenerSlot (ThisNotebook i) s =
          (let s1 = s\<lparr>nbcells := (nbcells s)[nat i := c\<lparr>prompt := Some ''*''\<rparr>]\<rparr> in
           case (rtc_id c, ymap_get (cells s) (rtc_id c)) of
             (Some k, Some m) \<Rightarrow> Done (s1\<lparr>cells := (cells s)(k \<mapsto> bumped m)\<rparr>)
           | _ \<Rightarrow> Threw TypeError s1)"
proof -
  have "checkHostActive (s\<lparr>nbcells := (nbcells s)[nat i := c\<lparr>prompt := Some ''*''\<rparr>]\<rparr>)"
    using act by (simp add: checkHostActive_def)
  with w code show ?thesis
    by (auto simp: localExecutionListenerSlot_def Let_def bumped_def split: option.splits)
qed

lemma slot_absent:
  assumes w: "array_at (nbcells s) i = Some c" and code: "ctype c = ''code''"
    and act: "\<not> checkHostActive s"
  shows "localExecutionListenerSlot (ThisNotebook i) s =
          (let s1 = s\<lparr>nbcells := (nbcells s)[nat i := c\<lparr>prompt := Some ''*''\<rparr>]\<rparr>;
               s2 = becomeHost (notebookHost_insert 0 (username s)
                      (notebookHost_delete 0 (length (notebookHost s)) (s1\<lparr>hosting := True\<rparr>))) in
           case (rtc_id c, ymap_get (cells s) (rtc_id c)) of
             (Some k, Some m) \<Rightarrow> Done (s2\<lparr>cells := (cells s)(k \<mapsto> bumped m)\<rparr>)
           | _ \<Rightarrow> Threw TypeError s2)"
proof -
  have "\<not> checkHostActive (s\<lparr>nbcells := (nbcells s)[nat i := c\<lparr>prompt := Some ''*''\<rparr>]\<rparr>)"
    using act by (simp add: checkHostActive_def)
  with w code show ?thesis
    by (auto simp: localExecutionListenerSlot_def Let_def bumped_def rewrite_host_frame
        split: option.splits)
qed

lemma session0_facts:
  "\<not> hosting session0" "backend session0 = []" "handled session0 = []"
  "\<exists>st\<in>set (awareness session0). snd st = notebookHost session0"
  "array_at (nbcells session0) 0 = Some cell_a" "ctype cell_a = ''code''"
  "rtc_id cell_a = Some ''a''" "cells session0 ''a'' = Some (block_at 0)"
  "username session0 = ''ann''"
  by (simp_all add: session0_def array_at_def cell_a_def)

subsection \<open>Dispatch on the first changed key\<close>

lemma nbcells_adjustIndexes: "nbcells (final (adjustIndexes a b s)) = nbcells s"
  by (simp add: adjustIndexes_final)

lemma nbcells_localListener_move: "nbcells (final (localListener_move changed s)) = nbcells s"
  by (auto simp: localListener_move_def nbcells_adjustIndexes split: list.splits option.splits)

lemma nbcells_emit_move:
  "chtype changed = CMove \<Longrightarrow> nbcells (emit_changed changed s) = nbcells s"
  by (simp add: emit_changed_def localListenerSlot_def nbcells_localListener_move)

lemma mset_list_move: "i < length xs \<Longrightarrow> mset (list_move i j xs) = mset xs"
proof -
  assume i: "i < length xs"
  let ?rest = "take i xs @ drop (Suc i) xs"
  have "mset (list_move i j xs) = mset (take j ?rest @ drop j ?rest) + {#xs ! i#}"
    by (simp add: list_move_def Let_def)
  also have "\<dots> = mset ?rest + {#xs ! i#}" by (simp only: append_take_drop_id)
  also have "\<dots> = mset (take i xs @ xs ! i # drop (Suc i) xs)" by simp
  also have "\<dots> = mset xs" using i by (simp only: id_take_nth_drop[symmetric])
  finally show ?thesis .
qed

lemma mset_cells_move: "mset (nbcells (final (cells_move f t s))) = mset (nbcells s)"
proof (cases f)
  case (JNum i)
  show ?thesis
  proof (cases "array_at (nbcells s) i")
    case None
    with JNum show ?thesis by (simp add: cells_move_def)
  next
    case (Some c)
    then have i: "nat i < length (nbcells s)"
      by (auto simp: array_at_def split: if_splits)
    from JNum Some show ?thesis
      by (auto simp: cells_move_def nbcells_emit_move mset_list_move[OF i] split: option.splits)
  qed
qed (simp_all add: cells_move_def)

lemma mset_thenDo:
  "mset (nbcells (final a)) = M \<Longrightarrow> (\<And>t. mset (nbcells (final (g t))) = mset (nbcells t)) \<Longrightarrow>
   mset (nbcells (final (thenDo a g))) = M"
  by (cases a) auto

lemma mset_forEach:
  "(\<And>x t. mset (nbcells (final (f x t))) = mset (nbcells t)) \<Longrightarrow>
   mset (nbcells (final (forEach f xs s))) = mset (nbcells s)"
proof (induction xs arbitrary: s)
  case Nil
  show ?case by simp
next
  case (Cons x xs)
  show ?case
    unfolding forEach.simps
    by (rule mset_thenDo) (use Cons in blast)+
qed

lemma mset_handleMoveUpdate: "mset (nbcells (final (handleMoveUpdate e s))) = mset (nbcells s)"
  unfolding handleMoveUpdate_def
  by (rule mset_forEach)
     (auto simp: handleMoveUpdate_change_def Let_def mset_cells_move split: option.splits)

lemma first_key_Cons: "changes_keys e = (k, ch) # rest \<Longrightarrow> first_key e = Some k"
  by (simp add: first_key_def)

text \<open>
  Claim C9. For a remote event on a cell record (a non-empty path) with the
  changed keys \<open>k\<close>, ..., the listener does what the handler of the first key \<open>k\<close> does
  and nothing else: its outcome is the outcome of that handler (for \<^verbatim>\<open>xCount\<close> on a
  host only, for \<^verbatim>\<open>output\<close> on a client that is not the host only), and no change
  at all for a key without a handler. When \<open>k\<close> is not \<^verbatim>\<open>position\<close> the outcome is
  the one of the event with the single key \<open>k\<close>: the other changed keys have no
  effect. When \<open>k\<close> is \<^verbatim>\<open>position\<close> the cells of the notebook are the same cells,
  moved at most (none is retyped, none gets a prompt or outputs), and the
  backend is not called, whatever the other keys are.
\<close>

theorem remote_event_first_key_only:
  "path e \<noteq> [] \<Longrightarrow> changes_keys e = (k, ch) # rest \<Longrightarrow>
   remote_event v e s =
     (if k = ''position'' then handleMoveUpdate e (invoked HMove s)
      else if k = ''type'' then switchType e (invoked HType s)
      else if k = ''xCount'' then
        (if hosting s then handleExecution v e (invoked HExecution s) else Done s)
      else if k = ''output'' then
        (if \<not> hosting s then handleOutputChange (path0 e) (invoked HOutput s) else Done s)
      else if k = ''tag'' then handleTag (path0 e) (invoked HTag s)
      else Done s)
   \<and> (k \<noteq> ''position'' \<longrightarrow>
        remote_event v e s = remote_event v (e\<lparr>changes_keys := [(k, ch)]\<rparr>) s)
   \<and> (k = ''position'' \<longrightarrow>
        mset (nbcells (final (remote_event v e s))) = mset (nbcells s)
        \<and> backend (final (remote_event v e s)) = backend s)"
proof -
  assume p: "path e \<noteq> []" and ks: "changes_keys e = (k, ch) # rest"
  note fk = first_key_Cons[OF ks]
  have eq: "remote_event v e s =
     (if k = ''position'' then handleMoveUpdate e (invoked HMove s)
      else if k = ''type'' then switchType e (invoked HType s)
      else if k = ''xCount'' then
        (if hosting s then handleExecution v e (invoked HExecution s) else Done s)
      else if k = ''output'' then
        (if \<not> hosting s then handleOutputChange (path0 e) (invoked HOutput s) else Done s)
      else if k = ''tag'' then handleTag (path0 e) (invoked HTag s)
      else Done s)"
    using p fk by (simp add: remote_event_def Let_def)
  let ?e1 = "e\<lparr>changes_keys := [(k, ch)]\<rparr>"
  have p1: "path ?e1 \<noteq> []" and fk1: "first_key ?e1 = Some k"
    using p by (simp_all add: first_key_def)
  have p0: "path0 (e\<lparr>changes_keys := ks\<rparr>) = path0 e" for ks
    by (simp add: path0_def)
  have sw: "switchType (e\<lparr>changes_keys := ks\<rparr>) t = switchType e t" for t ks
    by (simp add: switchType_def p0)
  have ex: "handleExecution v (e\<lparr>changes_keys := ks\<rparr>) t = handleExecution v e t" for t ks
    by (simp add: handleExecution_def p0)
  have indep: "remote_event v e s = remote_event v ?e1 s" if "k \<noteq> ''position''"
    using that p p1 fk fk1 by (simp add: remote_event_def Let_def sw ex p0)
  have mv: "mset (nbcells (final (remote_event v e s))) = mset (nbcells s)
        \<and> backend (final (remote_event v e s)) = backend s" if k: "k = ''position''"
  proof -
    from eq k have r: "remote_event v e s = handleMoveUpdate e (invoked HMove s)" by simp
    have "mset (nbcells (final (handleMoveUpdate e (invoked HMove s)))) = mset (nbcells (invoked HMove s))"
      by (rule mset_handleMoveUpdate)
    moreover have "nbcells (invoked HMove s) = nbcells s" by (simp add: invoked_def)
    moreover note same_logsD[OF same_logs_handleMoveUpdate, of e "invoked HMove s"]
    ultimately show ?thesis unfolding r by simp
  qed
  from eq indep mv show ?thesis by blast
qed

text \<open>
  The transaction that moved \<open>a\<close> and made it a markdown cell. With \<^verbatim>\<open>position\<close> first,
  the cell is moved and stays a code cell; with \<^verbatim>\<open>type\<close> first, the outcome is the
  one of the change of type alone, and no cell is moved.
\<close>

theorem remote_event_first_key_only_witness:
  "path position_type_event \<noteq> []
   \<and> changes_keys position_type_event =
        (''position'', \<lparr>action = ActUpdate, oldValue = JNum 0\<rparr>)
          # [(''type'', \<lparr>action = ActUpdate, oldValue = JStr ''code''\<rparr>)]
   \<and> remote_event Named position_type_event session_moved
        = handleMoveUpdate position_type_event (invoked HMove session_moved)
   \<and> map_option btype (cells session_moved ''a'') = Some ''markdown''
   \<and> nbcells session_moved = [cell_a, cell_b]
   \<and> nbcells (final (remote_event Named position_type_event session_moved)) = [cell_b, cell_a]
   \<and> path type_position_event \<noteq> []
   \<and> changes_keys type_position_event =
        (''type'', \<lparr>action = ActUpdate, oldValue = JStr ''code''\<rparr>)
          # [(''position'', \<lparr>action = ActUpdate, oldValue = JNum 0\<rparr>)]
   \<and> remote_event Named type_position_event session_moved
        = remote_event Named
            (type_position_event\<lparr>changes_keys :=
               [(''type'', \<lparr>action = ActUpdate, oldValue = JStr ''code''\<rparr>)]\<rparr>) session_moved
   \<and> map rtc_id (nbcells (final (remote_event Named type_position_event session_moved)))
        = [Some ''a'', Some ''b'']"
proof -
  have p: "path position_type_event \<noteq> []"
    and ks: "changes_keys position_type_event =
        (''position'', \<lparr>action = ActUpdate, oldValue = JNum 0\<rparr>)
          # [(''type'', \<lparr>action = ActUpdate, oldValue = JStr ''code''\<rparr>)]"
    by (simp_all add: position_type_event_def)
  have p': "path type_position_event \<noteq> []"
    and ks': "changes_keys type_position_event =
        (''type'', \<lparr>action = ActUpdate, oldValue = JStr ''code''\<rparr>)
          # [(''position'', \<lparr>action = ActUpdate, oldValue = JNum 0\<rparr>)]"
    by (simp_all add: type_position_event_def)
  have st: "map_option btype (cells session_moved ''a'') = Some ''markdown''"
    "nbcells session_moved = [cell_a, cell_b]"
    by (simp_all add: session_moved_def session0_def)
  from remote_event_first_key_only[OF p ks, of Named session_moved]
  have a: "remote_event Named position_type_event session_moved
        = handleMoveUpdate position_type_event (invoked HMove session_moved)"
    by simp
  have "nbcells (final (handleMoveUpdate position_type_event (invoked HMove session_moved)))
          = [cell_b, cell_a]"
    by (simp add: handleMoveUpdate_def handleMoveUpdate_change_def position_type_event_def
        session_moved_def session0_def invoked_def path0_def array_at_def cells_move_def
        list_move_def emit_changed_def localListenerSlot_def localListener_move_def
        cell_a_def cell_b_def block_at_def Let_def)
  with a have b: "nbcells (final (remote_event Named position_type_event session_moved))
      = [cell_b, cell_a]" by simp
  note t' = remote_event_first_key_only[OF p' ks', of Named session_moved]
  from t'[THEN conjunct2, THEN conjunct1]
  have c: "remote_event Named type_position_event session_moved
        = remote_event Named
            (type_position_event\<lparr>changes_keys :=
               [(''type'', \<lparr>action = ActUpdate, oldValue = JStr ''code''\<rparr>)]\<rparr>) session_moved"
    by simp
  from t'[THEN conjunct1]
  have c': "remote_event Named type_position_event session_moved
        = switchType type_position_event (invoked HType session_moved)"
    by simp
  have "map rtc_id (nbcells (final (switchType type_position_event (invoked HType session_moved))))
        = [Some ''a'', Some ''b'']"
    by (simp add: switchType_def type_position_event_def session_moved_def session0_def
        invoked_def path0_def array_at_def cells_set_def createCellFrom_def emit_changed_def
        localListenerSlot_def localListener_set_def getCellIndex_def bindCell_def
        cell_a_def cell_b_def block_at_def Let_def)
  with c' have d: "map rtc_id (nbcells (final (remote_event Named type_position_event session_moved)))
        = [Some ''a'', Some ''b'']" by simp
  from p ks a st b p' ks' c d show ?thesis by blast
qed

subsection \<open>Execution gating\<close>

text \<open>
  Claim C4. On a client whose hosting flag is false the remote listener calls
  neither \<^verbatim>\<open>CodeCell.execute\<close> nor \<^verbatim>\<open>changeKernel\<close>, whatever the events, and does not
  invoke \<^verbatim>\<open>handleExecution\<close>; for a single event, \<^verbatim>\<open>handleExecution\<close> is invoked only
  when the flag is true. When a member of the awareness states carries the name
  in the host pointer, the execution listener makes no backend call and leaves
  the hosting flag as it is; for a code cell with a record, the only change of
  the map \<^verbatim>\<open>cells\<close> is the count of the record, set to 1 or raised by one.
\<close>

theorem non_host_never_executes:
  "(\<not> hosting s \<longrightarrow>
      backend (final (remoteListenerFunction v es origin s)) = backend s
      \<and> (HExecution \<notin> set (handled s) \<longrightarrow>
           HExecution \<notin> set (handled (final (remoteListenerFunction v es origin s)))))
   \<and> (HExecution \<in> set (drop (length (handled s)) (handled (final (remote_event v e s))))
        \<longrightarrow> hosting s)
   \<and> ((\<exists>st\<in>set (awareness s). snd st = notebookHost s) \<longrightarrow>
        backend (final (localExecutionListenerSlot args s)) = backend s
        \<and> hosting (final (localExecutionListenerSlot args s)) = hosting s
        \<and> (\<forall>i c k m. args = ThisNotebook i \<and> array_at (nbcells s) i = Some c \<and> ctype c = ''code''
              \<and> rtc_id c = Some k \<and> cells s k = Some m \<longrightarrow>
              cells (final (localExecutionListenerSlot args s)) =
                (cells s)(k \<mapsto> m\<lparr>xCount := Some (case xCount m of None \<Rightarrow> 1 | Some n \<Rightarrow> n + 1)\<rparr>)))"
proof (intro conjI impI allI)
  assume nh: "\<not> hosting s"
  then have "backend s = backend s \<and> \<not> hosting s" by simp
  from remote_events_non_host[OF this, of v es]
  show "backend (final (remoteListenerFunction v es origin s)) = backend s"
    by (simp add: remoteListenerFunction_def)
  assume "HExecution \<notin> set (handled s)"
  with nh have "backend s = backend s \<and> \<not> hosting s \<and> HExecution \<notin> set (handled s)" by simp
  from remote_events_non_host_trace[OF this, of v es] \<open>HExecution \<notin> set (handled s)\<close>
  show "HExecution \<notin> set (handled (final (remoteListenerFunction v es origin s)))"
    by (simp add: remoteListenerFunction_def)
next
  assume ex: "HExecution \<in> set (drop (length (handled s)) (handled (final (remote_event v e s))))"
  show "hosting s"
  proof (cases "path e = []")
    case True
    have "same_logs s (final (forEach remote_change (changes_keys e) s))"
      by (rule same_logs_forEach) (rule same_logs_remote_change)
    from same_logsD[OF this] True ex show ?thesis by (simp add: remote_event_def)
  next
    case False
    from ex show ?thesis
      unfolding handled_remote_event[OF False] by (simp split: if_splits)
  qed
next
  assume "\<exists>st\<in>set (awareness s). snd st = notebookHost s"
  then have act: "checkHostActive s" by (simp add: checkHostActive_iff)
  have both: "backend (final (localExecutionListenerSlot args s)) = backend s
        \<and> hosting (final (localExecutionListenerSlot args s)) = hosting s"
  proof (cases args)
    case OtherNotebook
    then show ?thesis by (simp add: localExecutionListenerSlot_def)
  next
    case (ThisNotebook i)
    show ?thesis
    proof (cases "array_at (nbcells s) i")
      case None
      with ThisNotebook show ?thesis by (simp add: localExecutionListenerSlot_def)
    next
      case (Some c)
      show ?thesis
      proof (cases "ctype c = ''code''")
        case True
        from slot_present[OF Some True act] ThisNotebook show ?thesis
          by (auto simp: Let_def split: option.splits)
      next
        case False
        with Some ThisNotebook show ?thesis by (simp add: localExecutionListenerSlot_def Let_def)
      qed
    qed
  qed
  from both show "backend (final (localExecutionListenerSlot args s)) = backend s" by simp
  from both show "hosting (final (localExecutionListenerSlot args s)) = hosting s" by simp
  fix i c k m
  assume h: "args = ThisNotebook i \<and> array_at (nbcells s) i = Some c \<and> ctype c = ''code''
              \<and> rtc_id c = Some k \<and> cells s k = Some m"
  then have "array_at (nbcells s) i = Some c" "ctype c = ''code''" by simp_all
  from slot_present[OF this act] h
  show "cells (final (localExecutionListenerSlot args s)) =
                (cells s)(k \<mapsto> m\<lparr>xCount := Some (case xCount m of None \<Rightarrow> 1 | Some n \<Rightarrow> n + 1)\<rparr>)"
    by (simp add: Let_def bumped_def)
qed

text \<open>The peer \<open>ann\<close>, with the host \<open>bob\<close> present, on an event for \<^verbatim>\<open>xCount\<close> and on a run of cell 0.\<close>

theorem non_host_never_executes_witness:
  "\<not> hosting session0
   \<and> backend (final (remoteListenerFunction Named [xcount_event] True session0)) = []
   \<and> HExecution \<notin> set (handled (final (remoteListenerFunction Named [xcount_event] True session0)))
   \<and> (\<exists>st\<in>set (awareness session0). snd st = notebookHost session0)
   \<and> backend (final (localExecutionListenerSlot (ThisNotebook 0) session0)) = []
   \<and> \<not> hosting (final (localExecutionListenerSlot (ThisNotebook 0) session0))
   \<and> cells (final (localExecutionListenerSlot (ThisNotebook 0) session0)) ''a''
        = Some ((block_at 0)\<lparr>xCount := Some 1\<rparr>)"
proof -
  note t = non_host_never_executes[of session0 Named "[xcount_event]" True xcount_event
      "ThisNotebook 0"]
  from t session0_facts(1,2,3)
  have a: "backend (final (remoteListenerFunction Named [xcount_event] True session0)) = []"
    "HExecution \<notin> set (handled (final (remoteListenerFunction Named [xcount_event] True session0)))"
    by simp_all
  from t session0_facts(4,1,2)
  have b: "backend (final (localExecutionListenerSlot (ThisNotebook 0) session0)) = []"
    "\<not> hosting (final (localExecutionListenerSlot (ThisNotebook 0) session0))"
    by simp_all
  from t session0_facts(4)
  have "\<forall>i c k m. ThisNotebook 0 = ThisNotebook i \<and> array_at (nbcells session0) i = Some c
            \<and> ctype c = ''code'' \<and> rtc_id c = Some k \<and> cells session0 k = Some m \<longrightarrow>
          cells (final (localExecutionListenerSlot (ThisNotebook 0) session0)) =
            (cells session0)(k \<mapsto> m\<lparr>xCount := Some (case xCount m of None \<Rightarrow> 1 | Some n \<Rightarrow> n + 1)\<rparr>)"
    by blast
  from this[rule_format, of 0 cell_a "''a''" "block_at 0"] session0_facts(5,6,7,8)
  have c: "cells (final (localExecutionListenerSlot (ThisNotebook 0) session0)) ''a''
        = Some ((block_at 0)\<lparr>xCount := Some 1\<rparr>)"
    by (simp add: block_at_def)
  from session0_facts(1,4) a b c show ?thesis by blast
qed

subsection \<open>The request for execution on a client that is not the host\<close>

text \<open>
  Claim C5. When a code cell of this notebook is run, the listener looks for a
  member of the awareness states whose user name is the text of the host
  pointer. When there is none, the hosting flag is true afterwards, the host
  pointer holds the client's own user name, and \<^verbatim>\<open>changeKernel\<close> was called (once
  by \<^verbatim>\<open>becomeHost\<close>, and once more by the observer of the host pointer when that is
  connected), with no other backend call. When there is one, the record's count
  is set to 1 or raised by one, and the hosting flag, the host pointer and the
  backend log stay as they were.
\<close>

theorem execution_request_checks_host:
  "array_at (nbcells s) i = Some c \<Longrightarrow> ctype c = ''code'' \<Longrightarrow>
   (checkHostActive s \<longleftrightarrow> (\<exists>st\<in>set (awareness s). snd st = notebookHost s))
   \<and> (\<not> (\<exists>st\<in>set (awareness s). snd st = notebookHost s) \<longrightarrow>
        hosting (final (localExecutionListenerSlot (ThisNotebook i) s))
        \<and> notebookHost (final (localExecutionListenerSlot (ThisNotebook i) s)) = username s
        \<and> (\<exists>n\<ge>1. backend (final (localExecutionListenerSlot (ThisNotebook i) s))
                     = backend s @ replicate n ChangeKernel))
   \<and> ((\<exists>st\<in>set (awareness s). snd st = notebookHost s) \<longrightarrow>
        hosting (final (localExecutionListenerSlot (ThisNotebook i) s)) = hosting s
        \<and> notebookHost (final (localExecutionListenerSlot (ThisNotebook i) s)) = notebookHost s
        \<and> backend (final (localExecutionListenerSlot (ThisNotebook i) s)) = backend s
        \<and> (\<forall>k m. rtc_id c = Some k \<and> cells s k = Some m \<longrightarrow>
              cells (final (localExecutionListenerSlot (ThisNotebook i) s)) k =
                Some (m\<lparr>xCount := Some (case xCount m of None \<Rightarrow> 1 | Some n \<Rightarrow> n + 1)\<rparr>)))"
proof -
  assume w: "array_at (nbcells s) i = Some c" and code: "ctype c = ''code''"
  let ?s' = "final (localExecutionListenerSlot (ThisNotebook i) s)"
  let ?s1 = "s\<lparr>nbcells := (nbcells s)[nat i := c\<lparr>prompt := Some ''*''\<rparr>], hosting := True\<rparr>"
  have absent: "hosting ?s' \<and> notebookHost ?s' = username s
        \<and> (\<exists>n\<ge>1. backend ?s' = backend s @ replicate n ChangeKernel)"
    if "\<not> checkHostActive s"
  proof -
    let ?h = "notebookHost_insert 0 (username s) (notebookHost_delete 0 (length (notebookHost s)) ?s1)"
    from rewrite_host_frame(3)[of "username s" "length (notebookHost s)" ?s1]
    obtain k where k: "backend ?h = backend s @ replicate k ChangeKernel" by auto
    have nh: "notebookHost ?h = username s"
      using rewrite_host[of "username s" ?s1] by simp
    have "backend (becomeHost ?h) = backend s @ replicate (Suc k) ChangeKernel"
      using k by (simp add: replicate_append_same)
    then have "\<exists>n\<ge>1. backend (becomeHost ?h) = backend s @ replicate n ChangeKernel"
      by (intro exI[of _ "Suc k"]) simp
    with nh slot_absent[OF w code that] show ?thesis
      by (auto simp: Let_def split: option.splits)
  qed
  have present: "hosting ?s' = hosting s \<and> notebookHost ?s' = notebookHost s \<and> backend ?s' = backend s
        \<and> (\<forall>k m. rtc_id c = Some k \<and> cells s k = Some m \<longrightarrow>
              cells ?s' k = Some (m\<lparr>xCount := Some (case xCount m of None \<Rightarrow> 1 | Some n \<Rightarrow> n + 1)\<rparr>))"
    if "checkHostActive s"
    using slot_present[OF w code that] by (auto simp: Let_def bumped_def split: option.splits)
  from absent present show ?thesis by (simp add: checkHostActive_iff)
qed

text \<open>
  The peer \<open>ann\<close> runs cell 0: once with the host \<open>bob\<close> present, once with a host
  pointer naming the absent \<open>zed\<close>.
\<close>

theorem execution_request_checks_host_witness:
  "array_at (nbcells session0) 0 = Some cell_a \<and> ctype cell_a = ''code''
   \<and> (\<exists>st\<in>set (awareness session0). snd st = notebookHost session0)
   \<and> \<not> hosting (final (localExecutionListenerSlot (ThisNotebook 0) session0))
   \<and> notebookHost (final (localExecutionListenerSlot (ThisNotebook 0) session0)) = ''bob''
   \<and> cells (final (localExecutionListenerSlot (ThisNotebook 0) session0)) ''a''
        = Some ((block_at 0)\<lparr>xCount := Some 1\<rparr>)
   \<and> array_at (nbcells (session0\<lparr>notebookHost := ''zed''\<rparr>)) 0 = Some cell_a
   \<and> \<not> (\<exists>st\<in>set (awareness (session0\<lparr>notebookHost := ''zed''\<rparr>)).
            snd st = notebookHost (session0\<lparr>notebookHost := ''zed''\<rparr>))
   \<and> hosting (final (localExecutionListenerSlot (ThisNotebook 0) (session0\<lparr>notebookHost := ''zed''\<rparr>)))
   \<and> notebookHost (final (localExecutionListenerSlot (ThisNotebook 0) (session0\<lparr>notebookHost := ''zed''\<rparr>)))
        = ''ann''"
proof -
  let ?z = "session0\<lparr>notebookHost := ''zed''\<rparr>"
  have w: "array_at (nbcells ?z) 0 = Some cell_a"
    and absent: "\<not> (\<exists>st\<in>set (awareness ?z). snd st = notebookHost ?z)"
    and u: "username ?z = ''ann''"
    by (simp_all add: session0_def array_at_def)
  note p = execution_request_checks_host[OF session0_facts(5,6)]
  note q = execution_request_checks_host[OF w session0_facts(6)]
  from p session0_facts(4,1)
  have a: "\<not> hosting (final (localExecutionListenerSlot (ThisNotebook 0) session0))"
    "notebookHost (final (localExecutionListenerSlot (ThisNotebook 0) session0)) = ''bob''"
    by (simp_all add: session0_def)
  from p session0_facts(4)
  have "\<forall>k m. rtc_id cell_a = Some k \<and> cells session0 k = Some m \<longrightarrow>
          cells (final (localExecutionListenerSlot (ThisNotebook 0) session0)) k =
            Some (m\<lparr>xCount := Some (case xCount m of None \<Rightarrow> 1 | Some n \<Rightarrow> n + 1)\<rparr>)"
    by blast
  from this[rule_format, of "''a''" "block_at 0"] session0_facts(7,8)
  have b: "cells (final (localExecutionListenerSlot (ThisNotebook 0) session0)) ''a''
        = Some ((block_at 0)\<lparr>xCount := Some 1\<rparr>)"
    by (simp add: block_at_def)
  from q absent u
  have c: "hosting (final (localExecutionListenerSlot (ThisNotebook 0) ?z))"
    "notebookHost (final (localExecutionListenerSlot (ThisNotebook 0) ?z)) = ''ann''"
    by simp_all
  from session0_facts(4,5,6) a b w absent c show ?thesis by blast
qed

text \<open>
  Claim C10. After the listener ran for a code cell of this notebook whose id has
  a record, the record's \<^verbatim>\<open>xCount\<close> is 1 when it was \<^verbatim>\<open>undefined\<close> and the previous
  value plus one otherwise; it is a defined number, and it is at least 1 when the
  previous value was not negative (every count the class writes is 0 or the
  result of this increment).
\<close>

theorem xCount_after_execution:
  "array_at (nbcells s) i = Some c \<Longrightarrow> ctype c = ''code'' \<Longrightarrow> rtc_id c = Some k \<Longrightarrow>
   cells s k = Some m \<Longrightarrow>
   completed (localExecutionListenerSlot (ThisNotebook i) s)
   \<and> (\<exists>m'. cells (final (localExecutionListenerSlot (ThisNotebook i) s)) k = Some m'
          \<and> xCount m' = Some (case xCount m of None \<Rightarrow> 1 | Some n \<Rightarrow> n + 1)
          \<and> ((\<forall>n. xCount m = Some n \<longrightarrow> 0 \<le> n) \<longrightarrow> (\<exists>n. xCount m' = Some n \<and> 1 \<le> n)))"
proof -
  assume w: "array_at (nbcells s) i = Some c" and code: "ctype c = ''code''"
    and k: "rtc_id c = Some k" and m: "cells s k = Some m"
  have "completed (localExecutionListenerSlot (ThisNotebook i) s)
     \<and> cells (final (localExecutionListenerSlot (ThisNotebook i) s)) k = Some (bumped m)"
  proof (cases "checkHostActive s")
    case True
    from slot_present[OF w code True] k m show ?thesis by (simp add: Let_def)
  next
    case False
    from slot_absent[OF w code False] k m show ?thesis by (simp add: Let_def)
  qed
  moreover have "xCount (bumped m) = Some (case xCount m of None \<Rightarrow> 1 | Some n \<Rightarrow> n + 1)"
    by (simp add: bumped_def)
  moreover have "(\<forall>n. xCount m = Some n \<longrightarrow> 0 \<le> n) \<longrightarrow> (\<exists>n. xCount (bumped m) = Some n \<and> 1 \<le> n)"
    by (cases "xCount m") (auto simp: bumped_def)
  ultimately show ?thesis by blast
qed

text \<open>Cell 0 of the concrete session, whose record holds the count 0.\<close>

theorem xCount_after_execution_witness:
  "array_at (nbcells session0) 0 = Some cell_a \<and> ctype cell_a = ''code''
   \<and> rtc_id cell_a = Some ''a'' \<and> cells session0 ''a'' = Some (block_at 0)
   \<and> xCount (block_at 0) = Some 0
   \<and> completed (localExecutionListenerSlot (ThisNotebook 0) session0)
   \<and> (\<exists>m'. cells (final (localExecutionListenerSlot (ThisNotebook 0) session0)) ''a'' = Some m'
          \<and> xCount m' = Some 1 \<and> (\<exists>n. xCount m' = Some n \<and> 1 \<le> n))"
proof -
  have nn: "xCount (block_at 0) = Some 0" by (simp add: block_at_def)
  from xCount_after_execution[OF session0_facts(5,6,7,8)]
  have "completed (localExecutionListenerSlot (ThisNotebook 0) session0)"
    "\<exists>m'. cells (final (localExecutionListenerSlot (ThisNotebook 0) session0)) ''a'' = Some m'
          \<and> xCount m' = Some 1 \<and> (\<exists>n. xCount m' = Some n \<and> 1 \<le> n)"
    by (auto simp: block_at_def)
  with session0_facts(5,6,7,8) nn show ?thesis by blast
qed

subsection \<open>The execution request on the host\<close>

lemma handleExecution_named:
  "cells s cid = Some m \<Longrightarrow> array_at (nbcells s) (position m) = Some c \<Longrightarrow> path e = cid # rest \<Longrightarrow>
   handleExecution Named e s =
     (if cxCount c = xCount m then Done s else Done (s\<lparr>backend := backend s @ [Execute (Some c)]\<rparr>))"
  by (simp add: handleExecution_def getCellIndex_def path0_def Let_def)

lemma handleExecution_second:
  "cells s cid = Some m \<Longrightarrow> array_at (nbcells s) (position m) = Some c \<Longrightarrow> path e = cid # rest \<Longrightarrow>
   handleExecution Second e s = Done (s\<lparr>backend := backend s @ [Execute (Some c)]\<rparr>)"
  by (simp add: handleExecution_def getCellIndex_def path0_def Let_def)

text \<open>
  Claim C2, as stated, fails on the second copy of the class: on the host, with
  the count cached in the cell equal to the count of the record, the remote
  listener of that copy calls \<^verbatim>\<open>CodeCell.execute\<close>.
\<close>

theorem second_copy_executes_duplicate:
  "hosting host0 \<and> cells host0 ''a'' = Some (block_at 0) \<and> array_at (nbcells host0) 0 = Some cell_a
   \<and> cxCount cell_a = xCount (block_at 0)
   \<and> backend host0 = []
   \<and> backend (final (remoteListenerFunction Second [xcount_event] True host0)) = [Execute (Some cell_a)]"
  by (simp add: host0_def session0_def remoteListenerFunction_def remote_event_def xcount_event_def
      first_key_def handleExecution_def getCellIndex_def path0_def invoked_def array_at_def
      cell_a_def block_at_def Let_def)

text \<open>
  Claim C2, amended. On a host, for an event whose first changed key is \<^verbatim>\<open>xCount\<close>
  and whose record and cell exist: the file \<^verbatim>\<open>src/RTCNotebook.tsx\<close> compares the count
  cached in the cell's metadata with the count of the record, makes no backend
  call when they are equal and calls \<^verbatim>\<open>CodeCell.execute\<close> on the cell when they
  differ; the second copy of the class makes no comparison and calls
  \<^verbatim>\<open>CodeCell.execute\<close> on the cell for every such event.
\<close>

theorem execution_request_compared_in_named_copy:
  "hosting s \<Longrightarrow> path e = cid # rest \<Longrightarrow> first_key e = Some ''xCount'' \<Longrightarrow>
   cells s cid = Some m \<Longrightarrow> array_at (nbcells s) (position m) = Some c \<Longrightarrow>
   backend (final (remote_event Named e s)) =
     (if cxCount c = xCount m then backend s else backend s @ [Execute (Some c)])
   \<and> backend (final (remote_event Second e s)) = backend s @ [Execute (Some c)]"
proof -
  assume h: "hosting s" and p: "path e = cid # rest" and f: "first_key e = Some ''xCount''"
    and m: "cells s cid = Some m" and w: "array_at (nbcells s) (position m) = Some c"
  have m': "cells (invoked HExecution s) cid = Some m"
    and w': "array_at (nbcells (invoked HExecution s)) (position m) = Some c"
    using m w by (simp_all add: invoked_def)
  from h p f handleExecution_named[OF m' w' p] handleExecution_second[OF m' w' p]
  show ?thesis by (simp add: remote_event_def Let_def)
qed

text \<open>
  The host of the concrete session, on an event for \<^verbatim>\<open>xCount\<close> of a record whose count
  equals the cached one.
\<close>

theorem execution_request_compared_in_named_copy_witness:
  "hosting host0 \<and> path xcount_event = ''a'' # [] \<and> first_key xcount_event = Some ''xCount''
   \<and> cells host0 ''a'' = Some (block_at 0)
   \<and> array_at (nbcells host0) (position (block_at 0)) = Some cell_a
   \<and> backend (final (remote_event Named xcount_event host0)) = []
   \<and> backend (final (remote_event Second xcount_event host0)) = [Execute (Some cell_a)]"
proof -
  have h: "hosting host0" and p: "path xcount_event = ''a'' # []"
    and f: "first_key xcount_event = Some ''xCount''"
    and m: "cells host0 ''a'' = Some (block_at 0)"
    and w: "array_at (nbcells host0) (position (block_at 0)) = Some cell_a"
    by (simp_all add: host0_def session0_def xcount_event_def first_key_def array_at_def block_at_def)
  from execution_request_compared_in_named_copy[OF h p f m w]
  have "backend (final (remote_event Named xcount_event host0)) = []"
    "backend (final (remote_event Second xcount_event host0)) = [Execute (Some cell_a)]"
    by (simp_all add: cell_a_def block_at_def host0_def session0_def)
  with h p f m w show ?thesis by blast
qed

subsection \<open>A remote deletion without a binding\<close>

text \<open>
  Claim C3 (not met by the code). The deletion of an id that has no binding is not
  skipped: \<^verbatim>\<open>this.bindings.get(id).destroy()\<close> is a call on \<^verbatim>\<open>undefined\<close>, and the remote
  listener throws a TypeError, in both copies of the class. The cell list and
  the bindings are as before, but the handler does not complete, and the changes
  after this one in the transaction are not applied.
\<close>

theorem remote_delete_unbound_throws:
  "map_of (bindings session0) (Some ''x'') = None
   \<and> remoteListenerFunction Named [delete_event] True session0 = Threw TypeError session0
   \<and> remoteListenerFunction Second [delete_event] True session0 = Threw TypeError session0"
  by (simp add: remoteListenerFunction_def remote_event_def delete_event_def remote_change_def
      remote_delete_def session0_def)

subsection \<open>Host handoff\<close>

lemma indexOf_from_mem:
  "x \<in> set xs \<Longrightarrow>
   \<exists>n. n < length xs \<and> indexOf_from x xs i = i + int n \<and>
       take n xs @ drop (Suc n) xs = remove1 x xs"
proof (induction xs arbitrary: i)
  case Nil
  then show ?case by simp
next
  case (Cons y ys)
  show ?case
  proof (cases "y = x")
    case True
    then show ?thesis by (intro exI[of _ 0]) simp
  next
    case False
    with Cons.prems have "x \<in> set ys" by simp
    from Cons.IH[OF this, of "i + 1"] obtain n where n: "n < length ys"
      "indexOf_from x ys (i + 1) = i + 1 + int n" "take n ys @ drop (Suc n) ys = remove1 x ys"
      by blast
    with False show ?thesis by (intro exI[of _ "Suc n"]) simp
  qed
qed

lemma splice1_indexOf: "x \<in> set xs \<Longrightarrow> splice1 (indexOf x xs) xs = remove1 x xs"
proof -
  assume "x \<in> set xs"
  from indexOf_from_mem[OF this, of 0] obtain n where n: "n < length xs"
    "indexOf x xs = int n" "take n xs @ drop (Suc n) xs = remove1 x xs"
    by (auto simp: indexOf_def)
  then show ?thesis by (simp add: splice1_def Let_def min_def)
qed

text \<open>
  Claim C6, as stated, fails: with a second client of the same user present (the
  user name comes from the hub, so two tabs of one user carry the same name),
  the host pointer after the handoff holds the name of the other client, which is
  the leaving client's own name.
\<close>

theorem handoff_to_same_name:
  "clientID session_dup = 2 \<and> username session_dup = ''bob''
   \<and> other_clients session_dup = [5]
   \<and> notebookHost (final (handleHostChange (*) (1 / 2) session_dup)) = username session_dup"
  by (simp add: session_dup_def session0_def other_clients_def handleHostChange_def Let_def
      indexOf_def splice1_def array_at_def notebookHost_insert_def notebookHost_delete_def
      ytext_insert_def ytext_delete_def hostListenerFunction_def becomeHost_def)

text \<open>
  Claim C6, amended. The awareness states have distinct client ids and hold the
  state of this client. When another client is present and the rounded product
  of \<^verbatim>\<open>Math.random()\<close> and the number \<open>n\<close> of other clients lies from 0 up to but not
  including \<open>n\<close>, \<^verbatim>\<open>handleHostChange\<close> completes and the host pointer then holds the
  user name of the state of another client, the one at the index that is the
  floor of the product in the list of the other clients; this is not the leaving
  client's own user name when the user names of the states are distinct and the
  client's state carries its name. When no other client is present, nothing
  changes. How the choice is distributed is not stated.
\<close>

theorem handoff_names_other_replica:
  "distinct (map fst (awareness s)) \<Longrightarrow> clientID s \<in> set (map fst (awareness s)) \<Longrightarrow>
   (other_clients s \<noteq> [] \<and> 0 \<le> fmul rnd (real (length (other_clients s)))
      \<and> fmul rnd (real (length (other_clients s))) < real (length (other_clients s)) \<longrightarrow>
      completed (handleHostChange fmul rnd s)
      \<and> (\<exists>st\<in>set (awareness s). fst st \<noteq> clientID s
             \<and> notebookHost (final (handleHostChange fmul rnd s)) = snd st)
      \<and> map_of (awareness s)
           (other_clients s ! nat \<lfloor>fmul rnd (real (length (other_clients s)))\<rfloor>)
           = Some (notebookHost (final (handleHostChange fmul rnd s)))
      \<and> ((clientID s, username s) \<in> set (awareness s) \<longrightarrow> distinct (map snd (awareness s)) \<longrightarrow>
            notebookHost (final (handleHostChange fmul rnd s)) \<noteq> username s))
   \<and> (other_clients s = [] \<longrightarrow> handleHostChange fmul rnd s = Done s)"
proof -
  assume dist: "distinct (map fst (awareness s))"
    and own: "clientID s \<in> set (map fst (awareness s))"
  let ?keys = "map fst (awareness s)"
  let ?oth = "other_clients s"
  let ?p = "fmul rnd (real (length ?oth))"
  have spl: "splice1 (indexOf (clientID s) ?keys) ?keys = ?oth"
    using own by (simp add: splice1_indexOf other_clients_def)
  have len: "length ?keys = Suc (length ?oth)"
    using own by (simp add: other_clients_def length_remove1) (cases "awareness s"; simp)
  have oth_set: "set ?oth = set ?keys - {clientID s}"
    using dist by (simp add: other_clients_def)
  show ?thesis
  proof (intro conjI impI)
    assume "?oth = []"
    with len have "length ?keys = 1" by simp
    then show "handleHostChange fmul rnd s = Done s"
      by (simp add: handleHostChange_def Let_def)
  next
    assume a: "?oth \<noteq> [] \<and> 0 \<le> ?p \<and> ?p < real (length ?oth)"
    then have pos: "0 < length ?oth" by simp
    with len have gt: "length ?keys > 1" by simp
    let ?k = "\<lfloor>?p\<rfloor>"
    from a have "0 \<le> ?k" by simp
    moreover from a have "?p < real_of_int (int (length ?oth))" by simp
    then have "?k < int (length ?oth)" by (simp only: floor_less_iff)
    ultimately have kb: "0 \<le> ?k" "?k < int (length ?oth)" by simp_all
    let ?h = "?oth ! nat ?k"
    have w: "array_at ?oth ?k = Some ?h" using kb by (simp add: array_at_def)
    have "nat ?k < length ?oth" using kb by (simp only: nat_less_iff)
    then have hin: "?h \<in> set ?oth" by (rule nth_mem)
    with oth_set have hk: "?h \<in> set ?keys" and hne: "?h \<noteq> clientID s" by auto
    from hk obtain name where name: "map_of (awareness s) ?h = Some name"
      by (cases "map_of (awareness s) ?h") (auto simp: map_of_eq_None_iff)
    then have mem: "(?h, name) \<in> set (awareness s)" by (rule map_of_SomeD)
    have run: "handleHostChange fmul rnd s =
        Done (notebookHost_insert 0 name (notebookHost_delete 0 (length (notebookHost s)) s))"
      using gt spl w name by (simp add: handleHostChange_def Let_def)
    have host: "notebookHost (final (handleHostChange fmul rnd s)) = name"
      by (simp add: run rewrite_host)
    show "completed (handleHostChange fmul rnd s)" by (simp add: run)
    show "\<exists>st\<in>set (awareness s). fst st \<noteq> clientID s
             \<and> notebookHost (final (handleHostChange fmul rnd s)) = snd st"
      using mem hne host by (intro bexI[of _ "(?h, name)"]) simp_all
    show "map_of (awareness s) ?h = Some (notebookHost (final (handleHostChange fmul rnd s)))"
      using name host by simp
    show "notebookHost (final (handleHostChange fmul rnd s)) \<noteq> username s"
      if me: "(clientID s, username s) \<in> set (awareness s)"
        and names: "distinct (map snd (awareness s))"
    proof
      assume "notebookHost (final (handleHostChange fmul rnd s)) = username s"
      with host have eq: "snd (?h, name) = snd (clientID s, username s)" by simp
      from names have "inj_on snd (set (awareness s))" by (simp add: distinct_map)
      from inj_onD[OF this eq mem me] have "(?h, name) = (clientID s, username s)" .
      with hne show False by simp
    qed
  qed
qed

text \<open>
  The host \<open>bob\<close> leaves with \<open>ann\<close> and \<open>cy\<close> present and the product \<open>1/2 * 2\<close>; and
  \<open>bob\<close> leaves alone.
\<close>

theorem handoff_names_other_replica_witness:
  "distinct (map fst (awareness session3)) \<and> clientID session3 \<in> set (map fst (awareness session3))
   \<and> other_clients session3 = [1, 3]
   \<and> (0::real) \<le> 1 / 2 * real (length (other_clients session3))
   \<and> (1::real) / 2 * real (length (other_clients session3)) < real (length (other_clients session3))
   \<and> (clientID session3, username session3) \<in> set (awareness session3)
   \<and> distinct (map snd (awareness session3))
   \<and> completed (handleHostChange (*) (1 / 2) session3)
   \<and> notebookHost (final (handleHostChange (*) (1 / 2) session3)) \<noteq> username session3
   \<and> notebookHost (final (handleHostChange (*) (1 / 2) session3)) = ''cy''
   \<and> other_clients (session3\<lparr>awareness := [(2, ''bob'')]\<rparr>) = []
   \<and> handleHostChange (*) (1 / 2) (session3\<lparr>awareness := [(2, ''bob'')]\<rparr>)
       = Done (session3\<lparr>awareness := [(2, ''bob'')]\<rparr>)"
proof -
  let ?t = "session3\<lparr>awareness := [(2, ''bob'')]\<rparr>"
  have d: "distinct (map fst (awareness session3))"
    and o: "clientID session3 \<in> set (map fst (awareness session3))"
    and oc: "other_clients session3 = [1, 3]"
    by (simp_all add: session3_def session0_def other_clients_def)
  have d': "distinct (map fst (awareness ?t))"
    and o': "clientID ?t \<in> set (map fst (awareness ?t))"
    and oc': "other_clients ?t = []"
    by (simp_all add: session3_def session0_def other_clients_def)
  have p: "(0::real) \<le> 1 / 2 * real (length (other_clients session3))"
    "(1::real) / 2 * real (length (other_clients session3)) < real (length (other_clients session3))"
    by (simp_all add: oc)
  have fl: "nat \<lfloor>(1::real) / 2 * real (length (other_clients session3))\<rfloor> = 1"
    by (simp add: oc)
  have ne: "other_clients session3 \<noteq> []" by (simp add: oc)
  have me: "(clientID session3, username session3) \<in> set (awareness session3)"
    and names: "distinct (map snd (awareness session3))"
    by (simp_all add: session3_def session0_def)
  note t = handoff_names_other_replica[OF d o, of "(*)" "1 / 2", THEN conjunct1, rule_format,
      OF conjI[OF ne conjI[OF p]]]
  from t have c: "completed (handleHostChange (*) (1 / 2) session3)" by (rule conjunct1)
  from t have "map_of (awareness session3)
           (other_clients session3 ! nat \<lfloor>(1::real) / 2 * real (length (other_clients session3))\<rfloor>)
           = Some (notebookHost (final (handleHostChange (*) (1 / 2) session3)))"
    by blast
  then have a: "notebookHost (final (handleHostChange (*) (1 / 2) session3)) = ''cy''"
    unfolding fl by (simp add: oc) (simp add: session3_def session0_def)
  from t me names
  have n: "notebookHost (final (handleHostChange (*) (1 / 2) session3)) \<noteq> username session3"
    by blast
  from handoff_names_other_replica[OF d' o', of "(*)" "1 / 2"] oc'
  have b: "handleHostChange (*) (1 / 2) ?t = Done ?t" by simp
  from d o oc p me names c n a oc' b show ?thesis by blast
qed

subsection \<open>Close\<close>

lemma close_effects:
  "destroyed (close v s) = destroyed s \<and> bindings (close v s) = []
   \<and> \<not> localListenerOn (close v s) \<and> \<not> remoteListenerOn (close v s)
   \<and> (executionSlotDefined s \<longrightarrow> \<not> executionListenerOn (close v s))
   \<and> \<not> closeHandlerOn (close v s) \<and> \<not> saveHandlerOn (close v s) \<and> wsDestroyed (close v s)"
proof -
  have "fold (\<lambda>binding s'. s') bs s = s" for bs :: "nat list"
    by (induction bs) simp_all
  then show ?thesis
    by (cases v) (simp_all add: close_def disconnectListeners_def Let_def)
qed

text \<open>
  Claim C7 (not met by the code). \<^verbatim>\<open>close\<close> empties the map of bindings, disconnects
  the listeners and destroys the websocket provider, but it destroys no binding:
  the two bindings of the concrete session are not in the log of destroyed
  bindings after \<^verbatim>\<open>close\<close>, in either copy of the class.
\<close>

theorem close_destroys_no_binding:
  "map snd (bindings session0) = [0, 1] \<and> destroyed session0 = []
   \<and> destroyed (close Named session0) = [] \<and> destroyed (close Second session0) = []
   \<and> bindings (close Named session0) = []
   \<and> \<not> localListenerOn (close Named session0) \<and> \<not> remoteListenerOn (close Named session0)
   \<and> \<not> executionListenerOn (close Named session0) \<and> \<not> closeHandlerOn (close Named session0)
   \<and> \<not> saveHandlerOn (close Named session0) \<and> wsDestroyed (close Named session0)"
  by (simp add: close_def disconnectListeners_def session0_def Let_def)

end
